theory Spec2Isabelle
  imports Main
begin

section \<open>The catalogue service: data model\<close>

text \<open>
  The service \<^verbatim>\<open>server.js\<close> is a set of Express handlers over one Mongoose model,
  \<^verbatim>\<open>Producto\<close>, stored in the MongoDB collection \<^verbatim>\<open>productos\<close>. The handlers and
  the schema, its index and its hooks are embedded from the source. The calls they
  make into Mongoose and MongoDB (\<^verbatim>\<open>create\<close>, \<^verbatim>\<open>findOneAndUpdate\<close>,
  \<^verbatim>\<open>findById\<close>, \<^verbatim>\<open>findByIdAndDelete\<close>, \<^verbatim>\<open>find\<close>) are library
  code; they are modelled below by what the library documents for the options the source
  passes, each assumption stated where it is used.

  A \<^verbatim>\<open>Date\<close> is a natural number (milliseconds). The source reads the clock in two
  places: the default of \<^verbatim>\<open>creado_en\<close> (line 65) and the hooks that set
  \<^verbatim>\<open>actualizado_en\<close> (lines 80 and 84). The two reads of one request are two parameters
  of its handler, \<open>t_def\<close> and \<open>t_hook\<close>. A Create builds the document, defaults
  included, before it saves it, so it reads \<open>t_def\<close> first. A Replace runs its hook before
  the update is cast and the defaults of an insert are added, so it reads \<open>t_hook\<close> first.
\<close>

text \<open>
  \<^verbatim>\<open>VarianteSchema\<close> (lines 46-54). \<open>codigo_barras\<close> has no default: \<open>None\<close> is a
  subdocument without the field. The three other fields default to \<^verbatim>\<open>null\<close>, which is
  \<open>None\<close>. The same record is the variant of a request body and the stored one.
\<close>

record variante =
  codigo_barras :: "string option"
  forma_farmaceutica :: "string option"
  concentracion_dosis :: "string option"
  unidades_por_paquete :: "int option"

text \<open>
  A stored document of \<^verbatim>\<open>ProductoSchema\<close> (lines 56-69). \<open>p_id\<close> is \<^verbatim>\<open>_id\<close>
  and \<open>p_keywords\<close> is \<^verbatim>\<open>keywords\<close>.
  \<open>nombre\<close> is \<open>None\<close> in a document that was stored without the field (an upsert
  runs no validator); for \<open>codigo_atc\<close> and \<open>requiere_receta\<close>, \<open>None\<close> is the
  default \<^verbatim>\<open>null\<close>.
\<close>

record producto =
  p_id :: string
  nombre :: "string option"
  codigo_atc :: "string option"
  requiere_receta :: "bool option"
  habilitado :: bool
  p_keywords :: "string list"
  variantes :: "variante list"
  creado_en :: nat
  actualizado_en :: nat

text \<open>
  \<^verbatim>\<open>req.body\<close>, after the schema has cast it (strict mode drops every other key):
  each field is \<open>None\<close> when the body does not have the key. For the two nullable
  fields the inner option is the value, \<open>Some None\<close> being an explicit \<^verbatim>\<open>null\<close>;
  a key of another field, when the body has it, has a value of the field's type.
\<close>

record cuerpo =
  b_id :: "string option"
  b_nombre :: "string option"
  b_codigo_atc :: "string option option"
  b_requiere_receta :: "bool option option"
  b_habilitado :: "bool option"
  b_keywords :: "string list option"
  b_variantes :: "variante list option"
  b_creado_en :: "nat option"
  b_actualizado_en :: "nat option"

text \<open>The collection, in storage order.\<close>

type_synonym coleccion = "producto list"

text \<open>
  A thrown error, with the three properties the error handler reads or reports:
  \<^verbatim>\<open>err.name\<close>, \<^verbatim>\<open>err.code\<close> and \<^verbatim>\<open>err.keyValue\<close> (the index field and the
  duplicated value).
\<close>

record js_error =
  err_name :: string
  err_code :: "nat option"
  err_keyValue :: "(string \<times> string) option"

text \<open>The three errors the modelled library calls throw.\<close>

definition duplicate_key :: "string \<Rightarrow> string \<Rightarrow> js_error" where
  "duplicate_key k v =
     \<lparr>err_name = ''MongoServerError'', err_code = Some 11000, err_keyValue = Some (k, v)\<rparr>"

definition immutable_field :: js_error where
  "immutable_field = \<lparr>err_name = ''MongoServerError'', err_code = Some 66, err_keyValue = None\<rparr>"

definition validation_error :: js_error where
  "validation_error = \<lparr>err_name = ''ValidationError'', err_code = None, err_keyValue = None\<rparr>"

text \<open>An HTTP response: the status and what \<^verbatim>\<open>res.json\<close> or \<^verbatim>\<open>res.end\<close> sends.\<close>

datatype payload =
    Doc producto
  | Docs "producto list"
  | Null
  | Detail string
  | Duplicado "(string \<times> string) option"
  | Sin_contenido

type_synonym respuesta = "nat \<times> payload"

section \<open>The error handler (lines 194-200)\<close>

definition error_handler :: "js_error \<Rightarrow> respuesta" where
  "error_handler err =
     (if err_name err = ''MongoServerError'' \<and> err_code err = Some 11000
      then (409, Duplicado (err_keyValue err))
      else (500, Detail ''Error interno''))"

section \<open>The store: documents, the unique sparse index, validators\<close>

text \<open>\<^verbatim>\<open>findById\<close>: the first document with that \<^verbatim>\<open>_id\<close>.\<close>

definition findById :: "string \<Rightarrow> coleccion \<Rightarrow> producto option" where
  "findById i s = find (\<lambda>d. p_id d = i) s"

text \<open>
  The keys of a document in the index of line 76,
  \<^verbatim>\<open>{ "variantes.codigo_barras": 1 }, { unique: true, sparse: true }\<close>. The index is
  multikey: one key for each element of \<^verbatim>\<open>variantes\<close> that has the field. It is sparse:
  an element without the field, and an empty array, give no key. A field that is present
  gives a key whatever its value, the empty string included.
\<close>

definition claves :: "producto \<Rightarrow> string list" where
  "claves d = List.map_filter codigo_barras (variantes d)"

text \<open>
  The uniqueness check of a write to the document \<open>i\<close> that adds the keys \<open>ks\<close> to the
  index: the first of them that a different document already has. A unique index
  constrains separate documents only, so the keys of the written document are not compared
  with each other.
\<close>

definition clave_duplicada :: "string \<Rightarrow> string list \<Rightarrow> coleccion \<Rightarrow> string option" where
  "clave_duplicada i ks s = find (\<lambda>k. \<exists>d \<in> set s. p_id d \<noteq> i \<and> k \<in> set (claves d)) ks"

text \<open>
  Mongoose's \<^verbatim>\<open>required: true\<close> on a \<^verbatim>\<open>String\<close> path: the value must be present and
  not the empty string.
\<close>

definition requerido :: "string option \<Rightarrow> bool" where
  "requerido v = (case v of None \<Rightarrow> False | Some x \<Rightarrow> x \<noteq> [])"

definition valida_variante :: "variante \<Rightarrow> bool" where
  "valida_variante v = requerido (codigo_barras v)"

text \<open>
  Document validation, as \<^verbatim>\<open>create\<close> runs it before saving: the required paths
  \<^verbatim>\<open>_id\<close> (line 58), \<^verbatim>\<open>nombre\<close> (line 59) and \<^verbatim>\<open>codigo_barras\<close> of every
  variant (line 48).
\<close>

definition valida :: "cuerpo \<Rightarrow> bool" where
  "valida b =
     (requerido (b_id b) \<and> requerido (b_nombre b) \<and>
      (case b_variantes b of None \<Rightarrow> True | Some vs \<Rightarrow> list_all valida_variante vs))"

text \<open>
  Update validators (\<^verbatim>\<open>runValidators: true\<close>, line 162): the same validators, on the
  paths the update sets only.
\<close>

definition valida_update :: "cuerpo \<Rightarrow> bool" where
  "valida_update b =
     ((case b_id b of None \<Rightarrow> True | Some j \<Rightarrow> j \<noteq> []) \<and>
      (case b_nombre b of None \<Rightarrow> True | Some n \<Rightarrow> n \<noteq> []) \<and>
      (case b_variantes b of None \<Rightarrow> True | Some vs \<Rightarrow> list_all valida_variante vs))"

text \<open>
  \<^verbatim>\<open>$set\<close> of the body's fields on a document: a field of the body replaces the stored
  one whole, arrays included; a field the body does not have is left as it is.
  \<^verbatim>\<open>_id\<close> is not set here: an update that would change it is refused before
  (\<open>cambia_id\<close>).
\<close>

definition aplicar_set :: "cuerpo \<Rightarrow> producto \<Rightarrow> producto" where
  "aplicar_set b d =
     d\<lparr>nombre := (case b_nombre b of None \<Rightarrow> nombre d | Some n \<Rightarrow> Some n),
       codigo_atc := (case b_codigo_atc b of None \<Rightarrow> codigo_atc d | Some a \<Rightarrow> a),
       requiere_receta := (case b_requiere_receta b of None \<Rightarrow> requiere_receta d | Some r \<Rightarrow> r),
       habilitado := (case b_habilitado b of None \<Rightarrow> habilitado d | Some h \<Rightarrow> h),
       p_keywords := (case b_keywords b of None \<Rightarrow> p_keywords d | Some k \<Rightarrow> k),
       variantes := (case b_variantes b of None \<Rightarrow> variantes d | Some vs \<Rightarrow> vs),
       creado_en := (case b_creado_en b of None \<Rightarrow> creado_en d | Some t \<Rightarrow> t),
       actualizado_en := (case b_actualizado_en b of None \<Rightarrow> actualizado_en d | Some t \<Rightarrow> t)\<rparr>"

definition cambia_id :: "string \<Rightarrow> cuerpo \<Rightarrow> bool" where
  "cambia_id i b = (case b_id b of None \<Rightarrow> False | Some j \<Rightarrow> j \<noteq> i)"

text \<open>
  The schema defaults (lines 60-66) of a document with the given \<^verbatim>\<open>_id\<close>, the date
  defaults read at \<open>t_def\<close>. \<open>nombre\<close> has no default. The default of
  \<^verbatim>\<open>actualizado_en\<close> is never stored: the save hook and the \<^verbatim>\<open>$set\<close> of the
  update hook both write over it.
\<close>

definition por_defecto :: "nat \<Rightarrow> string \<Rightarrow> producto" where
  "por_defecto t_def i =
     \<lparr>p_id = i, nombre = None, codigo_atc = None, requiere_receta = None, habilitado = True,
      p_keywords = [], variantes = [], creado_en = t_def, actualizado_en = t_def\<rparr>"

text \<open>The hook \<^verbatim>\<open>pre("save")\<close> (lines 79-82).\<close>

definition pre_save :: "nat \<Rightarrow> producto \<Rightarrow> producto" where
  "pre_save t_hook d = d\<lparr>actualizado_en := t_hook\<rparr>"

text \<open>
  The hook \<^verbatim>\<open>pre("findOneAndUpdate")\<close> (lines 83-86): \<^verbatim>\<open>this.set\<close> puts the field
  into the update's \<^verbatim>\<open>$set\<close>, over a value the body gave for it.
\<close>

definition pre_findOneAndUpdate :: "nat \<Rightarrow> cuerpo \<Rightarrow> cuerpo" where
  "pre_findOneAndUpdate t_hook b = b\<lparr>b_actualizado_en := Some t_hook\<rparr>"

text \<open>Writing the first document with the given \<^verbatim>\<open>_id\<close>, and removing it.\<close>

fun reemplazar :: "string \<Rightarrow> producto \<Rightarrow> coleccion \<Rightarrow> coleccion" where
  "reemplazar i d [] = []"
| "reemplazar i d (x # xs) = (if p_id x = i then d # xs else x # reemplazar i d xs)"

fun eliminar :: "string \<Rightarrow> coleccion \<Rightarrow> coleccion" where
  "eliminar i [] = []"
| "eliminar i (x # xs) = (if p_id x = i then xs else x # eliminar i xs)"

text \<open>
  \<^verbatim>\<open>Producto.create(body)\<close>: the document is the body over the schema defaults, read
  at \<open>t_def\<close>; it is validated, the save hook runs, at \<open>t_hook\<close>, and the insert fails
  with the duplicate-key error 11000 when the \<^verbatim>\<open>_id\<close> is taken or when one of its index
  keys belongs to another document.
\<close>

definition create ::
  "nat \<Rightarrow> nat \<Rightarrow> cuerpo \<Rightarrow> coleccion \<Rightarrow> js_error + (producto \<times> coleccion)" where
  "create t_def t_hook b s =
     (case b_id b of
        None \<Rightarrow> Inl validation_error
      | Some i \<Rightarrow>
          if \<not> valida b then Inl validation_error
          else
            let d = pre_save t_hook (aplicar_set b (por_defecto t_def i)) in
            if findById i s \<noteq> None then Inl (duplicate_key ''_id'' i)
            else
              (case clave_duplicada i (claves d) s of
                 Some k \<Rightarrow> Inl (duplicate_key ''variantes.codigo_barras'' k)
               | None \<Rightarrow> Inr (d, s @ [d])))"

text \<open>
  \<^verbatim>\<open>Producto.findOneAndUpdate({ _id: i }, update, { new: true, ... })\<close> with the
  options \<open>upsert\<close> and \<open>runValidators\<close>. Mongoose turns an update without operators
  (the \<^verbatim>\<open>req.body\<close> of line 137) into a \<^verbatim>\<open>$set\<close> of its fields, so both callers
  pass a \<^verbatim>\<open>$set\<close>. The hook runs first, at \<open>t_hook\<close>. Update validators, when asked
  for, run before the store is read. An update that changes \<^verbatim>\<open>_id\<close> fails with the server error 66.
  Only the keys the update adds to the document enter the index and are checked. With
  \<open>upsert\<close> and no document, the new document is the \<^verbatim>\<open>$set\<close> over the schema
  defaults (\<^verbatim>\<open>setDefaultsOnInsert\<close>, on by default from Mongoose 6, the versions that
  know the \<^verbatim>\<open>strictQuery\<close> of line 34), which are evaluated after the hook, at
  \<open>t_def\<close>; without \<open>upsert\<close> no default is evaluated. The result is the document after
  the update (\<^verbatim>\<open>new: true\<close>), or \<^verbatim>\<open>null\<close>.
\<close>

definition findOneAndUpdate ::
  "nat \<Rightarrow> nat \<Rightarrow> string \<Rightarrow> cuerpo \<Rightarrow> bool \<Rightarrow> bool \<Rightarrow> coleccion \<Rightarrow>
   js_error + (producto option \<times> coleccion)" where
  "findOneAndUpdate t_hook t_def i b upsert runValidators s =
     (let u = pre_findOneAndUpdate t_hook b in
      if runValidators \<and> \<not> valida_update u then Inl validation_error
      else
        (case findById i s of
           None \<Rightarrow>
             if \<not> upsert then Inr (None, s)
             else if cambia_id i u then Inl immutable_field
             else
               let d = aplicar_set u (por_defecto t_def i) in
               (case clave_duplicada i (claves d) s of
                  Some k \<Rightarrow> Inl (duplicate_key ''variantes.codigo_barras'' k)
                | None \<Rightarrow> Inr (Some d, s @ [d]))
         | Some old \<Rightarrow>
             if cambia_id i u then Inl immutable_field
             else
               let d = aplicar_set u old in
               (case clave_duplicada i (filter (\<lambda>k. k \<notin> set (claves old)) (claves d)) s of
                  Some k \<Rightarrow> Inl (duplicate_key ''variantes.codigo_barras'' k)
                | None \<Rightarrow> Inr (Some d, reemplazar i d s))))"

text \<open>\<^verbatim>\<open>Producto.findByIdAndDelete(i)\<close>: the removed document, or \<^verbatim>\<open>null\<close>.\<close>

definition findByIdAndDelete :: "string \<Rightarrow> coleccion \<Rightarrow> producto option \<times> coleccion" where
  "findByIdAndDelete i s =
     (case findById i s of None \<Rightarrow> (None, s) | Some d \<Rightarrow> (Some d, eliminar i s))"

section \<open>Search (lines 94-109)\<close>

text \<open>
  \<^verbatim>\<open>req.query\<close>: each parameter is \<open>None\<close> when the query string does not have it.
  \<open>q_limit\<close> and \<open>q_skip\<close> hold what \<^verbatim>\<open>Number\<close> reads from a decimal numeral.
\<close>

record consulta =
  q_texto :: "string option"
  q_atc :: "string option"
  q_rx :: "string option"
  q_habilitado :: "string option"
  q_limit :: "nat option"
  q_skip :: "nat option"

text \<open>The filter object \<^verbatim>\<open>q\<close>; a field is \<open>None\<close> when the handler did not set it.\<close>

record filtro =
  f_text :: "string option"
  f_codigo_atc :: "string option"
  f_requiere_receta :: "bool option"
  f_habilitado :: "bool option"

text \<open>Lines 98-102. \<^verbatim>\<open>if (texto)\<close> is false for the empty string as for a missing one.\<close>

definition construir_q :: "consulta \<Rightarrow> filtro" where
  "construir_q c =
     \<lparr>f_text = (case q_texto c of None \<Rightarrow> None | Some t \<Rightarrow> if t \<noteq> [] then Some t else None),
      f_codigo_atc = (case q_atc c of None \<Rightarrow> None | Some a \<Rightarrow> if a \<noteq> [] then Some a else None),
      f_requiere_receta = (case q_rx c of None \<Rightarrow> None | Some r \<Rightarrow> Some (r = ''true'')),
      f_habilitado = (case q_habilitado c of None \<Rightarrow> None | Some h \<Rightarrow> Some (h = ''true''))\<rparr>"

text \<open>
  Whether a document matches the filter. What \<^verbatim>\<open>$text\<close> matches is decided by the
  storage engine's text index: it is the parameter \<open>tm\<close>.
\<close>

definition coincide :: "(string \<Rightarrow> producto \<Rightarrow> bool) \<Rightarrow> filtro \<Rightarrow> producto \<Rightarrow> bool" where
  "coincide tm f d =
     ((case f_text f of None \<Rightarrow> True | Some t \<Rightarrow> tm t d) \<and>
      (case f_codigo_atc f of None \<Rightarrow> True | Some a \<Rightarrow> codigo_atc d = Some a) \<and>
      (case f_requiere_receta f of None \<Rightarrow> True | Some r \<Rightarrow> requiere_receta d = Some r) \<and>
      (case f_habilitado f of None \<Rightarrow> True | Some h \<Rightarrow> habilitado d = h))"

text \<open>
  \<^verbatim>\<open>find(q).limit(n).skip(m)\<close>: the matches in storage order, the first \<open>m\<close> skipped,
  then at most \<open>n\<close> of them; a limit of 0 is no limit.
\<close>

definition find_limit_skip ::
  "(string \<Rightarrow> producto \<Rightarrow> bool) \<Rightarrow> filtro \<Rightarrow> nat \<Rightarrow> nat \<Rightarrow> coleccion \<Rightarrow> producto list" where
  "find_limit_skip tm f n m s =
     (let r = drop m (filter (coincide tm f) s) in if n = 0 then r else take n r)"

definition get_productos :: "(string \<Rightarrow> producto \<Rightarrow> bool) \<Rightarrow> consulta \<Rightarrow> coleccion \<Rightarrow> respuesta" where
  "get_productos tm c s =
     (let limit = (case q_limit c of None \<Rightarrow> 50 | Some n \<Rightarrow> n);
          skip = (case q_skip c of None \<Rightarrow> 0 | Some m \<Rightarrow> m)
      in (200, Docs (find_limit_skip tm (construir_q c) limit skip s)))"

section \<open>The other handlers\<close>

text \<open>\<^verbatim>\<open>POST /productos\<close> (lines 112-119).\<close>

definition post_productos ::
  "nat \<Rightarrow> nat \<Rightarrow> cuerpo \<Rightarrow> coleccion \<Rightarrow> respuesta \<times> coleccion" where
  "post_productos t_def t_hook b s =
     (case create t_def t_hook b s of
        Inl e \<Rightarrow> (error_handler e, s)
      | Inr (created, s') \<Rightarrow> ((201, Doc created), s'))"

text \<open>\<^verbatim>\<open>GET /productos/:id\<close> (lines 122-130).\<close>

definition get_producto :: "string \<Rightarrow> coleccion \<Rightarrow> respuesta" where
  "get_producto i s =
     (case findById i s of
        None \<Rightarrow> (404, Detail ''No existe'')
      | Some doc \<Rightarrow> (200, Doc doc))"

text \<open>\<^verbatim>\<open>PUT /productos/:id\<close> (lines 133-144): \<^verbatim>\<open>{ new: true, upsert: true }\<close>.\<close>

definition put_producto ::
  "nat \<Rightarrow> nat \<Rightarrow> string \<Rightarrow> cuerpo \<Rightarrow> coleccion \<Rightarrow> respuesta \<times> coleccion" where
  "put_producto t_hook t_def i b s =
     (case findOneAndUpdate t_hook t_def i b True False s of
        Inl e \<Rightarrow> (error_handler e, s)
      | Inr (None, s') \<Rightarrow> ((200, Null), s')
      | Inr (Some doc, s') \<Rightarrow> ((200, Doc doc), s'))"

text \<open>\<^verbatim>\<open>GET /productos/codigos-barras/:ean\<close> (lines 147-155).\<close>

definition get_codigo_barras :: "string \<Rightarrow> coleccion \<Rightarrow> respuesta" where
  "get_codigo_barras ean s =
     (case find (\<lambda>d. ean \<in> set (claves d)) s of
        None \<Rightarrow> (404, Detail ''No existe'')
      | Some doc \<Rightarrow> (200, Doc doc))"

text \<open>
  \<^verbatim>\<open>PATCH /productos/:id\<close> (lines 156-170): \<^verbatim>\<open>{ $set: update }\<close> with
  \<^verbatim>\<open>{ new: true, runValidators: true }\<close>, no upsert: the hook is the only read of the
  clock (the instant given for the defaults is not used).
\<close>

definition patch_producto :: "nat \<Rightarrow> string \<Rightarrow> cuerpo \<Rightarrow> coleccion \<Rightarrow> respuesta \<times> coleccion" where
  "patch_producto t_hook i b s =
     (case findOneAndUpdate t_hook t_hook i b False True s of
        Inl e \<Rightarrow> (error_handler e, s)
      | Inr (None, s') \<Rightarrow> ((404, Detail ''No existe''), s')
      | Inr (Some doc, s') \<Rightarrow> ((200, Doc doc), s'))"

text \<open>\<^verbatim>\<open>DELETE /productos/:id\<close> (lines 173-182).\<close>

definition delete_producto :: "string \<Rightarrow> coleccion \<Rightarrow> respuesta \<times> coleccion" where
  "delete_producto i s =
     (case findByIdAndDelete i s of
        (None, s') \<Rightarrow> ((404, Detail ''No existe''), s')
      | (Some deleted, s') \<Rightarrow> ((204, Sin_contenido), s'))"

section \<open>Requests and reachable states\<close>

datatype peticion =
    Buscar consulta
  | Crear cuerpo
  | Obtener string
  | Upsert string cuerpo
  | Por_codigo string
  | Parcial string cuerpo
  | Eliminar string

text \<open>
  Serving one request; \<open>t1\<close> is the first read of the clock it makes and \<open>t2\<close> the
  second: the default and then the hook for a Create, the hook and then the default for a
  Replace, the hook alone for a PartialUpdate.
\<close>

fun atender ::
  "(string \<Rightarrow> producto \<Rightarrow> bool) \<Rightarrow> nat \<Rightarrow> nat \<Rightarrow> peticion \<Rightarrow> coleccion \<Rightarrow>
   respuesta \<times> coleccion" where
  "atender tm t1 t2 (Buscar c) s = (get_productos tm c s, s)"
| "atender tm t1 t2 (Crear b) s = post_productos t1 t2 b s"
| "atender tm t1 t2 (Obtener i) s = (get_producto i s, s)"
| "atender tm t1 t2 (Upsert i b) s = put_producto t1 t2 i b s"
| "atender tm t1 t2 (Por_codigo ean) s = (get_codigo_barras ean s, s)"
| "atender tm t1 t2 (Parcial i b) s = patch_producto t1 i b s"
| "atender tm t1 t2 (Eliminar i) s = delete_producto i s"

text \<open>The states of the collection that requests reach from the empty one.\<close>

inductive alcanzable :: "coleccion \<Rightarrow> bool" where
  inicio: "alcanzable []"
| paso: "alcanzable s \<Longrightarrow> alcanzable (snd (atender tm t1 t2 r s))"

text \<open>
  Whether a request is a write for the id \<open>i\<close>: a Create of a body with that \<^verbatim>\<open>_id\<close>,
  or a Replace, a PartialUpdate or a Delete of it.
\<close>

fun escribe :: "string \<Rightarrow> peticion \<Rightarrow> bool" where
  "escribe i (Crear b) = (b_id b = Some i)"
| "escribe i (Upsert j b) = (j = i)"
| "escribe i (Parcial j b) = (j = i)"
| "escribe i (Eliminar j) = (j = i)"
| "escribe i r = False"

text \<open>Serving a list of requests, each with its two reads of the clock, one after the other.\<close>

fun atender_todas ::
  "(string \<Rightarrow> producto \<Rightarrow> bool) \<Rightarrow> (nat \<times> nat \<times> peticion) list \<Rightarrow> coleccion \<Rightarrow> coleccion" where
  "atender_todas tm [] s = s"
| "atender_todas tm ((t1, t2, r) # rs) s = atender_todas tm rs (snd (atender tm t1 t2 r s))"

text \<open>
  The same, on a clock: \<open>alcanzable_reloj t s\<close> when admissible requests, the last read
  of the clock at \<open>t\<close> or before, reach \<open>s\<close>. A request is admissible after the instant
  \<open>t\<close> when its reads of the clock do not go back (\<open>t \<le> t1 \<le> t2\<close>), its body gives
  no \<^verbatim>\<open>creado_en\<close> later than the read of its hook, which it writes into
  \<^verbatim>\<open>actualizado_en\<close>, and, when it is a Replace that inserts a document and takes
  \<^verbatim>\<open>creado_en\<close> from the default, the read of the default is the instant of the hook's.
\<close>

fun cuerpo_de :: "peticion \<Rightarrow> cuerpo option" where
  "cuerpo_de (Crear b) = Some b"
| "cuerpo_de (Upsert i b) = Some b"
| "cuerpo_de (Parcial i b) = Some b"
| "cuerpo_de r = None"

text \<open>The id a write is for.\<close>

fun destino :: "peticion \<Rightarrow> string option" where
  "destino (Crear b) = b_id b"
| "destino (Upsert i b) = Some i"
| "destino (Parcial i b) = Some i"
| "destino r = None"

fun lectura_del_hook :: "nat \<Rightarrow> nat \<Rightarrow> peticion \<Rightarrow> nat" where
  "lectura_del_hook t1 t2 (Crear b) = t2"
| "lectura_del_hook t1 t2 r = t1"

definition creado_en_admisible :: "nat \<Rightarrow> peticion \<Rightarrow> bool" where
  "creado_en_admisible t_hook r =
     (case cuerpo_de r of
        None \<Rightarrow> True
      | Some b \<Rightarrow> (case b_creado_en b of None \<Rightarrow> True | Some t \<Rightarrow> t \<le> t_hook))"

definition inserta_con_defecto :: "peticion \<Rightarrow> coleccion \<Rightarrow> bool" where
  "inserta_con_defecto r s =
     (case r of Upsert i b \<Rightarrow> findById i s = None \<and> b_creado_en b = None | _ \<Rightarrow> False)"

definition admisible :: "nat \<Rightarrow> nat \<Rightarrow> nat \<Rightarrow> peticion \<Rightarrow> coleccion \<Rightarrow> bool" where
  "admisible t t1 t2 r s =
     (t \<le> t1 \<and> t1 \<le> t2 \<and> creado_en_admisible (lectura_del_hook t1 t2 r) r \<and>
      (inserta_con_defecto r s \<longrightarrow> t1 = t2))"

inductive alcanzable_reloj :: "nat \<Rightarrow> coleccion \<Rightarrow> bool" where
  reloj_inicio: "alcanzable_reloj t []"
| reloj_paso:
    "alcanzable_reloj t s \<Longrightarrow> admisible t t1 t2 r s \<Longrightarrow>
     alcanzable_reloj t2 (snd (atender tm t1 t2 r s))"

section \<open>Properties of a collection\<close>

text \<open>No index key is shared by two different documents.\<close>

definition barras_unicas :: "coleccion \<Rightarrow> bool" where
  "barras_unicas s =
     (\<forall>d \<in> set s. \<forall>e \<in> set s. p_id d \<noteq> p_id e \<longrightarrow> set (claves d) \<inter> set (claves e) = {})"

text \<open>
  The non-empty bar codes of all the variants of all the documents, one entry for each
  variant that has one.
\<close>

definition barras_no_vacias :: "coleccion \<Rightarrow> string list" where
  "barras_no_vacias s = filter (\<lambda>k. k \<noteq> []) (concat (map claves s))"

text \<open>A well-formed collection: \<^verbatim>\<open>_id\<close> is a key, and the index is unique.\<close>

definition bien_formada :: "coleccion \<Rightarrow> bool" where
  "bien_formada s = (distinct (map p_id s) \<and> barras_unicas s)"

definition fechas_en_orden :: "coleccion \<Rightarrow> bool" where
  "fechas_en_orden s = (\<forall>d \<in> set s. creado_en d \<le> actualizado_en d)"

text \<open>Every timestamp of the collection is in order and not later than \<open>t\<close>.\<close>

definition en_hora :: "nat \<Rightarrow> coleccion \<Rightarrow> bool" where
  "en_hora t s = (\<forall>d \<in> set s. creado_en d \<le> actualizado_en d \<and> actualizado_en d \<le> t)"

section \<open>What a write sets, in the words of the specification\<close>

text \<open>
  Every field that the body \<open>b\<close> does not have has in \<open>d\<close> the value it has in \<open>old\<close>
  (\<^verbatim>\<open>actualizado_en\<close> is left out: every update sets it).
\<close>

definition conserva_ausentes :: "cuerpo \<Rightarrow> producto \<Rightarrow> producto \<Rightarrow> bool" where
  "conserva_ausentes b old d =
     (p_id d = p_id old \<and>
      (case b_nombre b of None \<Rightarrow> nombre d = nombre old | Some _ \<Rightarrow> True) \<and>
      (case b_codigo_atc b of None \<Rightarrow> codigo_atc d = codigo_atc old | Some _ \<Rightarrow> True) \<and>
      (case b_requiere_receta b of None \<Rightarrow> requiere_receta d = requiere_receta old | Some _ \<Rightarrow> True) \<and>
      (case b_habilitado b of None \<Rightarrow> habilitado d = habilitado old | Some _ \<Rightarrow> True) \<and>
      (case b_keywords b of None \<Rightarrow> p_keywords d = p_keywords old | Some _ \<Rightarrow> True) \<and>
      (case b_variantes b of None \<Rightarrow> variantes d = variantes old | Some _ \<Rightarrow> True) \<and>
      (case b_creado_en b of None \<Rightarrow> creado_en d = creado_en old | Some _ \<Rightarrow> True))"

text \<open>
  Every field that the body \<open>b\<close> has, has in \<open>d\<close> the value of the body, an array as a
  whole (\<^verbatim>\<open>actualizado_en\<close> left out again).
\<close>

definition toma_presentes :: "cuerpo \<Rightarrow> producto \<Rightarrow> bool" where
  "toma_presentes b d =
     ((case b_nombre b of None \<Rightarrow> True | Some n \<Rightarrow> nombre d = Some n) \<and>
      (case b_codigo_atc b of None \<Rightarrow> True | Some a \<Rightarrow> codigo_atc d = a) \<and>
      (case b_requiere_receta b of None \<Rightarrow> True | Some r \<Rightarrow> requiere_receta d = r) \<and>
      (case b_habilitado b of None \<Rightarrow> True | Some h \<Rightarrow> habilitado d = h) \<and>
      (case b_keywords b of None \<Rightarrow> True | Some k \<Rightarrow> p_keywords d = k) \<and>
      (case b_variantes b of None \<Rightarrow> True | Some vs \<Rightarrow> variantes d = vs) \<and>
      (case b_creado_en b of None \<Rightarrow> True | Some t \<Rightarrow> creado_en d = t))"

text \<open>The bar codes of the variants of a body.\<close>

definition barras_de :: "cuerpo \<Rightarrow> string list" where
  "barras_de b =
     List.map_filter codigo_barras (case b_variantes b of None \<Rightarrow> [] | Some vs \<Rightarrow> vs)"

text \<open>The bar codes of the products other than \<open>i\<close>.\<close>

definition barras_ajenas :: "string \<Rightarrow> coleccion \<Rightarrow> string list" where
  "barras_ajenas i s = concat (map claves (filter (\<lambda>d. p_id d \<noteq> i) s))"

text \<open>The bar codes of the body that the stored record \<open>i\<close>, if there is one, does not have.\<close>

definition barras_nuevas :: "string \<Rightarrow> cuerpo \<Rightarrow> coleccion \<Rightarrow> string list" where
  "barras_nuevas i b s =
     filter (\<lambda>k. k \<notin> set (case findById i s of None \<Rightarrow> [] | Some old \<Rightarrow> claves old))
       (barras_de b)"

text \<open>None of these belongs to another product.\<close>

definition libre :: "string \<Rightarrow> cuerpo \<Rightarrow> coleccion \<Rightarrow> bool" where
  "libre i b s = list_all (\<lambda>k. k \<notin> set (barras_ajenas i s)) (barras_nuevas i b s)"

text \<open>
  A write has no fault of its own: the body of a Create passes validation, a Replace does
  not change the id, a PartialUpdate passes the update validators, does not change the id
  and is for an existing id.
\<close>

definition sin_otra_falta :: "peticion \<Rightarrow> coleccion \<Rightarrow> bool" where
  "sin_otra_falta r s =
     (case r of
        Crear b \<Rightarrow> valida b
      | Upsert i b \<Rightarrow> \<not> cambia_id i b
      | Parcial i b \<Rightarrow> valida_update b \<and> \<not> cambia_id i b \<and> findById i s \<noteq> None
      | _ \<Rightarrow> False)"

text \<open>The variants of the body, if it has any, all lack a bar code.\<close>

definition sin_barras :: "cuerpo \<Rightarrow> bool" where
  "sin_barras b =
     (case b_variantes b of
        None \<Rightarrow> True
      | Some vs \<Rightarrow> list_all (\<lambda>v. codigo_barras v = None) vs)"

section \<open>Concrete inputs\<close>

text \<open>The body \<^verbatim>\<open>{}\<close>, and a variant that has a bar code and nothing else.\<close>

definition sin_campos :: cuerpo where
  "sin_campos =
     \<lparr>b_id = None, b_nombre = None, b_codigo_atc = None, b_requiere_receta = None,
      b_habilitado = None, b_keywords = None, b_variantes = None, b_creado_en = None,
      b_actualizado_en = None\<rparr>"

definition con_barras :: "string \<Rightarrow> variante" where
  "con_barras k =
     \<lparr>codigo_barras = Some k, forma_farmaceutica = None, concentracion_dosis = None,
      unidades_por_paquete = None\<rparr>"

text \<open>The body \<^verbatim>\<open>{ _id: i, nombre: n, variantes: [{ codigo_barras: k }, ...] }\<close>.\<close>

definition cuerpo_producto :: "string \<Rightarrow> string \<Rightarrow> string list \<Rightarrow> cuerpo" where
  "cuerpo_producto i n ks =
     sin_campos\<lparr>b_id := Some i, b_nombre := Some n, b_variantes := Some (map con_barras ks)\<rparr>"

text \<open>A variant without a bar code.\<close>

definition sin_codigo :: variante where
  "sin_codigo =
     \<lparr>codigo_barras = None, forma_farmaceutica = Some ''tableta'', concentracion_dosis = None,
      unidades_por_paquete = Some 10\<rparr>"

text \<open>
  The catalogue of the spec's first example, \<^verbatim>\<open>P1\<close> created with the clock read at 4
  and at 5, here with an ATC code.
\<close>

definition catalogo_p1 :: coleccion where
  "catalogo_p1 =
     snd (post_productos 4 5
       ((cuerpo_producto ''P1'' ''Paracetamol'' [''111''])\<lparr>b_codigo_atc := Some (Some ''N02'')\<rparr>) [])"

text \<open>The parameters of a request with no query string.\<close>

definition sin_parametros :: consulta where
  "sin_parametros =
     \<lparr>q_texto = None, q_atc = None, q_rx = None, q_habilitado = None, q_limit = None,
      q_skip = None\<rparr>"

text \<open>A collection of \<open>n\<close> documents with different \<^verbatim>\<open>_id\<close>s, all fields at their defaults.\<close>

definition muchos :: "nat \<Rightarrow> coleccion" where
  "muchos n = map (\<lambda>k. por_defecto 0 (replicate (Suc k) CHR ''a'')) [0..<n]"

section \<open>Lemmas on the store\<close>

text \<open>The definitions that evaluating a handler on a concrete request unfolds.\<close>

lemmas evaluar =
  post_productos_def create_def put_producto_def patch_producto_def delete_producto_def
  get_producto_def findOneAndUpdate_def findByIdAndDelete_def error_handler_def
  duplicate_key_def immutable_field_def validation_error_def
  cuerpo_producto_def sin_campos_def con_barras_def
  valida_def valida_update_def requerido_def valida_variante_def cambia_id_def
  findById_def clave_duplicada_def claves_def
  pre_save_def pre_findOneAndUpdate_def aplicar_set_def por_defecto_def Let_def

lemma p_id_aplicar_set [simp]: "p_id (aplicar_set b d) = p_id d"
  by (simp add: aplicar_set_def)

lemma p_id_por_defecto [simp]: "p_id (por_defecto td i) = i"
  by (simp add: por_defecto_def)

lemma valida_update_pre [simp]:
  "valida_update (pre_findOneAndUpdate th b) = valida_update b"
  by (simp add: valida_update_def pre_findOneAndUpdate_def)

lemma findById_Some_id: "findById i s = Some d \<Longrightarrow> p_id d = i \<and> d \<in> set s"
  unfolding findById_def by (auto simp: find_Some_iff)

lemma findById_None_iff: "findById i s = None \<longleftrightarrow> i \<notin> p_id ` set s"
  unfolding findById_def by (auto simp: find_None_iff)

lemma findById_append:
  "findById i (s @ [d]) =
     (case findById i s of None \<Rightarrow> if p_id d = i then Some d else None | Some x \<Rightarrow> Some x)"
  unfolding findById_def by (induction s) auto

lemma findById_reemplazar_same:
  "findById i s = Some old \<Longrightarrow> p_id d = i \<Longrightarrow> findById i (reemplazar i d s) = Some d"
  unfolding findById_def by (induction s) (auto split: if_splits)

lemma findById_reemplazar_other:
  "j \<noteq> i \<Longrightarrow> p_id d = i \<Longrightarrow> findById j (reemplazar i d s) = findById j s"
  unfolding findById_def by (induction s) auto

lemma ids_reemplazar: "p_id d = i \<Longrightarrow> map p_id (reemplazar i d s) = map p_id s"
  by (induction s) auto

lemma set_reemplazar:
  "x \<in> set (reemplazar i d s) \<Longrightarrow> distinct (map p_id s) \<Longrightarrow>
   x = d \<or> (x \<in> set s \<and> p_id x \<noteq> i)"
proof (induction s)
  case Nil
  then show ?case by simp
next
  case (Cons a s)
  show ?case
  proof (cases "p_id a = i")
    case True
    with Cons.prems have "x = d \<or> x \<in> set s" by simp
    moreover have "\<forall>y \<in> set s. p_id y \<noteq> i"
      using Cons.prems(2) True by (metis distinct.simps(2) image_eqI list.simps(9) set_map)
    ultimately show ?thesis by auto
  next
    case False
    with Cons.prems have "x = a \<or> x \<in> set (reemplazar i d s)" by simp
    with Cons.IH Cons.prems(2) False show ?thesis by auto
  qed
qed

lemma set_eliminar: "x \<in> set (eliminar i s) \<Longrightarrow> x \<in> set s"
  by (induction s) (auto split: if_splits)

lemma ids_eliminar: "distinct (map p_id s) \<Longrightarrow> distinct (map p_id (eliminar i s))"
  by (induction s) (auto dest: set_eliminar)

lemma findById_eliminar: "distinct (map p_id s) \<Longrightarrow> findById i (eliminar i s) = None"
proof (induction s)
  case Nil
  then show ?case by (simp add: findById_def)
next
  case (Cons a s)
  show ?case
  proof (cases "p_id a = i")
    case True
    with Cons.prems have "i \<notin> p_id ` set s" by auto
    with True show ?thesis by (simp add: findById_None_iff)
  next
    case False
    with Cons show ?thesis by (simp add: findById_def)
  qed
qed

text \<open>What a successful \<open>create\<close> and a successful \<open>findOneAndUpdate\<close> did.\<close>

lemma create_Inr:
  assumes "create td th b s = Inr (d, s')"
  shows "\<exists>i. b_id b = Some i \<and> valida b \<and> findById i s = None \<and>
             d = pre_save th (aplicar_set b (por_defecto td i)) \<and>
             clave_duplicada i (claves d) s = None \<and> s' = s @ [d]"
  using assms unfolding create_def
  by (auto simp: Let_def split: option.splits if_splits)

lemma findOneAndUpdate_Inr:
  assumes "findOneAndUpdate th td i b up rv s = Inr (r, s')"
  shows "(findById i s = None \<and> \<not> up \<and> r = None \<and> s' = s) \<or>
         (findById i s = None \<and> up \<and>
            (\<exists>d. d = aplicar_set (pre_findOneAndUpdate th b) (por_defecto td i) \<and>
                 clave_duplicada i (claves d) s = None \<and> r = Some d \<and> s' = s @ [d])) \<or>
         (\<exists>old d. findById i s = Some old \<and> d = aplicar_set (pre_findOneAndUpdate th b) old \<and>
            clave_duplicada i (filter (\<lambda>k. k \<notin> set (claves old)) (claves d)) s = None \<and>
            r = Some d \<and> s' = reemplazar i d s)"
  using assms unfolding findOneAndUpdate_def
  by (auto simp: Let_def split: option.splits if_splits)

section \<open>Every reachable collection is well formed\<close>

lemma clave_duplicada_None:
  "clave_duplicada i ks s = None \<Longrightarrow> k \<in> set ks \<Longrightarrow> e \<in> set s \<Longrightarrow> p_id e \<noteq> i \<Longrightarrow>
   k \<notin> set (claves e)"
  unfolding clave_duplicada_def by (auto simp: find_None_iff)

lemma barras_unicas_append:
  assumes "barras_unicas s"
    and "\<forall>e \<in> set s. p_id e \<noteq> p_id d \<longrightarrow> set (claves d) \<inter> set (claves e) = {}"
  shows "barras_unicas (s @ [d])"
  using assms unfolding barras_unicas_def by (auto simp: Int_commute)

lemma insertar_bien_formada:
  assumes wf: "bien_formada s" and fresh: "findById (p_id d) s = None"
    and free: "clave_duplicada (p_id d) (claves d) s = None"
  shows "bien_formada (s @ [d])"
proof -
  have "p_id d \<notin> p_id ` set s" using fresh by (simp add: findById_None_iff)
  then have "distinct (map p_id (s @ [d]))" using wf by (simp add: bien_formada_def)
  moreover have "\<forall>e \<in> set s. p_id e \<noteq> p_id d \<longrightarrow> set (claves d) \<inter> set (claves e) = {}"
    using clave_duplicada_None [OF free] by auto
  then have "barras_unicas (s @ [d])"
    using wf by (simp add: bien_formada_def barras_unicas_append)
  ultimately show ?thesis by (simp add: bien_formada_def)
qed

lemma create_bien_formada:
  assumes "bien_formada s" and "create td th b s = Inr (d, s')"
  shows "bien_formada s'"
proof -
  from create_Inr [OF assms(2)] obtain i where
    i: "findById i s = None" "d = pre_save th (aplicar_set b (por_defecto td i))"
       "clave_duplicada i (claves d) s = None" "s' = s @ [d]" by blast
  have "p_id d = i" using i(2) by (simp add: pre_save_def)
  with i assms(1) show ?thesis by (simp add: insertar_bien_formada)
qed

lemma findOneAndUpdate_bien_formada:
  assumes wf: "bien_formada s" and upd: "findOneAndUpdate th td i b up rv s = Inr (r, s')"
  shows "bien_formada s'"
proof -
  let ?u = "pre_findOneAndUpdate th b"
  from findOneAndUpdate_Inr [OF upd]
  consider (none) "s' = s"
    | (ins) d where "findById i s = None" "d = aplicar_set ?u (por_defecto td i)"
        "clave_duplicada i (claves d) s = None" "s' = s @ [d]"
    | (upd) old d where "findById i s = Some old" "d = aplicar_set ?u old"
        "clave_duplicada i (filter (\<lambda>k. k \<notin> set (claves old)) (claves d)) s = None"
        "s' = reemplazar i d s"
    by blast
  then show ?thesis
  proof cases
    case none
    with wf show ?thesis by simp
  next
    case (ins d)
    have "p_id d = i" using ins(2) by simp
    with ins wf show ?thesis by (simp add: insertar_bien_formada)
  next
    case (upd old d)
    have old: "p_id old = i" "old \<in> set s" using findById_Some_id [OF upd(1)] by auto
    have id: "p_id d = i" using upd(2) old(1) by simp
    have dist: "distinct (map p_id s)" using wf by (simp add: bien_formada_def)
    have uniq: "barras_unicas s" using wf by (simp add: bien_formada_def)
    have mem: "x = d \<or> (x \<in> set s \<and> p_id x \<noteq> i)" if "x \<in> set s'" for x
      using set_reemplazar [of x i d s] that upd(4) dist by simp
    have d_other: "set (claves d) \<inter> set (claves e) = {}" if e: "e \<in> set s" "p_id e \<noteq> i" for e
    proof -
      have "k \<notin> set (claves e)" if k: "k \<in> set (claves d)" for k
      proof (cases "k \<in> set (claves old)")
        case True
        have "set (claves old) \<inter> set (claves e) = {}"
          using uniq old e unfolding barras_unicas_def by auto
        with True show ?thesis by auto
      next
        case False
        with k have "k \<in> set (filter (\<lambda>k. k \<notin> set (claves old)) (claves d))" by simp
        from clave_duplicada_None [OF upd(3) this e] show ?thesis .
      qed
      then show ?thesis by auto
    qed
    have "barras_unicas s'"
      unfolding barras_unicas_def
    proof (intro ballI impI)
      fix x y assume xy: "x \<in> set s'" "y \<in> set s'" "p_id x \<noteq> p_id y"
      from mem [OF xy(1)] mem [OF xy(2)] xy(3) id
      consider "x = d" "y \<in> set s" "p_id y \<noteq> i"
        | "y = d" "x \<in> set s" "p_id x \<noteq> i"
        | "x \<in> set s" "y \<in> set s"
        by auto
      then show "set (claves x) \<inter> set (claves y) = {}"
      proof cases
        case 1 then show ?thesis using d_other by simp
      next
        case 2 then show ?thesis using d_other [of x] by (simp add: Int_commute)
      next
        case 3 then show ?thesis using uniq xy(3) unfolding barras_unicas_def by simp
      qed
    qed
    moreover have "distinct (map p_id s')" using dist upd(4) id by (simp add: ids_reemplazar)
    ultimately show ?thesis by (simp add: bien_formada_def)
  qed
qed

lemma eliminar_bien_formada:
  assumes "bien_formada s" shows "bien_formada (eliminar i s)"
proof -
  have "barras_unicas (eliminar i s)"
    unfolding barras_unicas_def
  proof (intro ballI impI)
    fix d e assume "d \<in> set (eliminar i s)" "e \<in> set (eliminar i s)" "p_id d \<noteq> p_id e"
    then have "d \<in> set s" "e \<in> set s" "p_id d \<noteq> p_id e" by (auto dest: set_eliminar)
    with assms show "set (claves d) \<inter> set (claves e) = {}"
      unfolding bien_formada_def barras_unicas_def by blast
  qed
  with assms show ?thesis by (simp add: bien_formada_def ids_eliminar)
qed

lemma atender_bien_formada:
  assumes "bien_formada s" shows "bien_formada (snd (atender tm t1 t2 r s))"
proof (cases r)
  case (Crear b)
  then show ?thesis using assms create_bien_formada [of s t1 t2 b]
    by (auto simp: post_productos_def split: sum.splits)
next
  case (Upsert i b)
  then show ?thesis using assms findOneAndUpdate_bien_formada [of s t1 t2 i b True False]
    by (auto simp: put_producto_def split: sum.splits option.splits)
next
  case (Parcial i b)
  then show ?thesis using assms findOneAndUpdate_bien_formada [of s t1 t1 i b False True]
    by (auto simp: patch_producto_def split: sum.splits option.splits)
next
  case (Eliminar i)
  then show ?thesis using assms eliminar_bien_formada [of s i]
    by (auto simp: delete_producto_def findByIdAndDelete_def split: option.splits)
qed (use assms in simp_all)

lemma alcanzable_bien_formada: "alcanzable s \<Longrightarrow> bien_formada s"
proof (induction rule: alcanzable.induct)
  case inicio
  show ?case by (simp add: bien_formada_def barras_unicas_def)
next
  case (paso s tm t1 t2 r)
  then show ?case by (simp add: atender_bien_formada)
qed

lemma estados: "fst (fst (atender tm t1 t2 r s)) \<in> {200, 201, 204, 404, 409, 500}"
  by (cases r)
     (auto simp: get_productos_def post_productos_def get_producto_def put_producto_def
        get_codigo_barras_def patch_producto_def delete_producto_def findByIdAndDelete_def
        error_handler_def Let_def
        split: sum.splits option.splits prod.splits)

lemma length_muchos: "length (muchos n) = n"
  by (simp add: muchos_def)

section \<open>What an update sets\<close>

lemma aplicar_set_conserva: "conserva_ausentes b old (aplicar_set (pre_findOneAndUpdate th b) old)"
  by (simp add: conserva_ausentes_def aplicar_set_def pre_findOneAndUpdate_def
      split: option.splits)

lemma aplicar_set_toma: "toma_presentes b (aplicar_set (pre_findOneAndUpdate th b) old)"
  by (simp add: toma_presentes_def aplicar_set_def pre_findOneAndUpdate_def
      split: option.splits)

lemma aplicar_set_actualizado:
  "actualizado_en (aplicar_set (pre_findOneAndUpdate th b) old) = th"
  by (simp add: aplicar_set_def pre_findOneAndUpdate_def)

lemma findOneAndUpdate_otros:
  assumes "findOneAndUpdate th td i b up rv s = Inr (r, s')" and "j \<noteq> i"
  shows "findById j s' = findById j s"
  using findOneAndUpdate_Inr [OF assms(1)] assms(2)
  by (auto simp: findById_append findById_reemplazar_other dest!: findById_Some_id
      split: option.splits)

lemma put_producto_200:
  assumes "put_producto th td i b s = ((200, p), s')"
  shows "\<exists>d. p = Doc d \<and> findOneAndUpdate th td i b True False s = Inr (Some d, s')"
proof -
  from assms obtain r where r: "findOneAndUpdate th td i b True False s = Inr (r, s')"
    by (auto simp: put_producto_def error_handler_def split: sum.splits option.splits if_splits)
  from findOneAndUpdate_Inr [OF r] obtain d where "r = Some d" by auto
  with r assms show ?thesis by (auto simp: put_producto_def)
qed

lemma patch_producto_200:
  assumes "patch_producto th i b s = ((200, p), s')"
  shows "\<exists>d. p = Doc d \<and> findOneAndUpdate th th i b False True s = Inr (Some d, s')"
  using assms
  by (auto simp: patch_producto_def error_handler_def split: sum.splits option.splits if_splits)

lemma findOneAndUpdate_Some:
  assumes "findOneAndUpdate th td i b up rv s = Inr (Some d, s')"
  shows "findById i s' = Some d \<and> p_id d = i \<and> toma_presentes b d \<and> actualizado_en d = th \<and>
         conserva_ausentes b (case findById i s of None \<Rightarrow> por_defecto td i | Some old \<Rightarrow> old) d"
proof -
  let ?u = "pre_findOneAndUpdate th b"
  from findOneAndUpdate_Inr [OF assms]
  consider (ins) "findById i s = None" "d = aplicar_set ?u (por_defecto td i)" "s' = s @ [d]"
    | (upd) old where "findById i s = Some old" "d = aplicar_set ?u old" "s' = reemplazar i d s"
    by auto
  then show ?thesis
  proof cases
    case ins
    then show ?thesis
      by (simp add: findById_append aplicar_set_conserva aplicar_set_toma aplicar_set_actualizado)
  next
    case upd
    have "p_id old = i" using findById_Some_id [OF upd(1)] by simp
    then have "p_id d = i" using upd(2) by simp
    with upd findById_reemplazar_same [OF upd(1) this] show ?thesis
      by (simp add: aplicar_set_conserva aplicar_set_toma aplicar_set_actualizado)
  qed
qed

lemma put_producto_rechazado:
  "fst (fst (put_producto th td i b s)) \<noteq> 200 \<Longrightarrow> snd (put_producto th td i b s) = s"
  by (auto simp: put_producto_def split: sum.splits option.splits)

lemma patch_producto_ausente:
  assumes "findById i s = None"
  shows "snd (patch_producto th i b s) = s"
    and "valida_update b \<Longrightarrow> patch_producto th i b s = ((404, Detail ''No existe''), s)"
  using assms
  by (auto simp: patch_producto_def findOneAndUpdate_def Let_def split: sum.splits option.splits)

section \<open>Create\<close>

lemma claves_nuevo:
  "claves (pre_save th (aplicar_set b (por_defecto td i))) = barras_de b"
  by (simp add: claves_def barras_de_def pre_save_def aplicar_set_def por_defecto_def
      split: option.splits)

lemma in_map_filter: "k \<in> set (List.map_filter f xs) \<longleftrightarrow> (\<exists>x \<in> set xs. f x = Some k)"
  by (induction xs) (auto split: option.splits)

lemma valida_barras_no_vacias: "valida b \<Longrightarrow> k \<in> set (barras_de b) \<Longrightarrow> k \<noteq> []"
  by (auto simp: valida_def barras_de_def valida_variante_def requerido_def list_all_iff
      in_map_filter split: option.splits)

lemma clave_duplicada_libre:
  assumes "\<forall>k \<in> set ks. k \<noteq> []" and "set ks \<inter> set (barras_no_vacias s) = {}"
  shows "clave_duplicada i ks s = None"
  using assms unfolding clave_duplicada_def barras_no_vacias_def
  by (auto simp: find_None_iff)

section \<open>Writes without bar codes add no key to the index\<close>

lemma map_filter_sin_barras:
  "list_all (\<lambda>v. codigo_barras v = None) vs \<Longrightarrow> List.map_filter codigo_barras vs = []"
  by (induction vs) auto

lemma barras_de_sin_barras: "sin_barras b \<Longrightarrow> barras_de b = []"
  by (auto simp: sin_barras_def barras_de_def map_filter_sin_barras split: option.splits)

lemma claves_sin_barras:
  "sin_barras b \<Longrightarrow>
   filter (\<lambda>k. k \<notin> set (claves old)) (claves (aplicar_set (pre_findOneAndUpdate th b) old)) = []"
  by (auto simp: sin_barras_def claves_def aplicar_set_def pre_findOneAndUpdate_def
      map_filter_sin_barras split: option.splits)

lemma claves_sin_barras_nuevo:
  "sin_barras b \<Longrightarrow> claves (aplicar_set (pre_findOneAndUpdate th b) (por_defecto td i)) = []"
  by (auto simp: sin_barras_def claves_def aplicar_set_def pre_findOneAndUpdate_def
      por_defecto_def map_filter_sin_barras split: option.splits)

lemma cambia_id_pre [simp]: "cambia_id i (pre_findOneAndUpdate th b) = cambia_id i b"
  by (simp add: cambia_id_def pre_findOneAndUpdate_def)

lemma clave_duplicada_Nil [simp]: "clave_duplicada i [] s = None"
  by (simp add: clave_duplicada_def)

lemma findOneAndUpdate_sin_barras:
  assumes "sin_barras b"
  shows "findOneAndUpdate th td i b up rv s = Inl e \<Longrightarrow> e = validation_error \<or> e = immutable_field"
    and "\<not> cambia_id i b \<Longrightarrow> \<not> rv \<Longrightarrow> \<exists>r s'. findOneAndUpdate th td i b up rv s = Inr (r, s')"
  using assms
  by (auto simp: findOneAndUpdate_def Let_def claves_sin_barras claves_sin_barras_nuevo
      split: option.splits if_splits)

lemma put_producto_sin_barras:
  assumes "sin_barras b"
  shows "fst (fst (put_producto th td i b s)) \<noteq> 409"
    and "\<not> cambia_id i b \<Longrightarrow> fst (fst (put_producto th td i b s)) = 200"
proof -
  show "fst (fst (put_producto th td i b s)) \<noteq> 409"
    using findOneAndUpdate_sin_barras(1) [OF assms, of th td i True False s]
    by (auto simp: put_producto_def error_handler_def validation_error_def immutable_field_def
        split: sum.splits option.splits)
  show "fst (fst (put_producto th td i b s)) = 200" if "\<not> cambia_id i b"
    using findOneAndUpdate_sin_barras(2) [OF assms that, of False th td True s]
    by (auto simp: put_producto_def split: sum.splits option.splits)
qed

lemma patch_producto_sin_barras:
  assumes "sin_barras b"
  shows "fst (fst (patch_producto th i b s)) \<noteq> 409"
  using findOneAndUpdate_sin_barras(1) [OF assms, of th th i False True s]
  by (auto simp: patch_producto_def error_handler_def validation_error_def immutable_field_def
      split: sum.splits option.splits)

lemma post_productos_sin_barras:
  assumes "sin_barras b"
  shows "snd (fst (post_productos td th b s)) \<noteq> Duplicado (Some (''variantes.codigo_barras'', k))"
  using assms
  by (auto simp: post_productos_def create_def Let_def claves_nuevo barras_de_sin_barras
      error_handler_def validation_error_def duplicate_key_def
      split: option.splits)

section \<open>Requests that do not write an id leave it absent\<close>

lemma findById_eliminar_other: "findById i s = None \<Longrightarrow> findById i (eliminar j s) = None"
  by (auto simp: findById_None_iff dest: set_eliminar)

lemma findOneAndUpdate_otro:
  assumes "findById i s = None" and "j \<noteq> i"
  shows "findById i (snd (put_producto th td j b s)) = None"
    and "findById i (snd (patch_producto th j b s)) = None"
proof -
  have *: "findById i s' = None" if "findOneAndUpdate th td' j b up rv s = Inr (r, s')"
    for td' up rv r s'
    using findOneAndUpdate_Inr [OF that] assms
    by (auto simp: findById_append findById_reemplazar_other dest!: findById_Some_id)
  show "findById i (snd (put_producto th td j b s)) = None"
    using * assms(1) by (auto simp: put_producto_def split: sum.splits option.splits)
  show "findById i (snd (patch_producto th j b s)) = None"
    using * assms(1) by (auto simp: patch_producto_def split: sum.splits option.splits)
qed

lemma sigue_ausente:
  assumes "findById i s = None" and "\<not> escribe i r"
  shows "findById i (snd (atender tm t1 t2 r s)) = None"
proof (cases r)
  case (Crear b)
  have "findById i s' = None" if "create t1 t2 b s = Inr (d, s')" for d s'
  proof -
    from create_Inr [OF that] obtain j where
      j: "b_id b = Some j" "d = pre_save t2 (aplicar_set b (por_defecto t1 j))" "s' = s @ [d]"
      by blast
    have "p_id d = j" using j(2) by (simp add: pre_save_def)
    moreover have "j \<noteq> i" using assms(2) Crear j(1) by simp
    ultimately show ?thesis using assms(1) j(3) by (simp add: findById_append)
  qed
  with assms(1) Crear show ?thesis
    by (auto simp: post_productos_def split: sum.splits)
next
  case (Upsert j b)
  with assms findOneAndUpdate_otro(1) [of i s j t1 t2 b] show ?thesis by simp
next
  case (Parcial j b)
  with assms findOneAndUpdate_otro(2) [of i s j t1 b] show ?thesis by simp
next
  case (Eliminar j)
  with assms show ?thesis
    by (auto simp: delete_producto_def findByIdAndDelete_def findById_eliminar_other
        split: option.splits)
qed (use assms in simp_all)

lemma siguen_ausentes:
  "findById i s = None \<Longrightarrow> list_all (\<lambda>p. \<not> escribe i (snd (snd p))) rs \<Longrightarrow>
   findById i (atender_todas tm rs s) = None"
proof (induction rs arbitrary: s)
  case Nil
  then show ?case by simp
next
  case (Cons p rs)
  obtain t1 t2 r where p: "p = (t1, t2, r)" by (cases p)
  with Cons.prems have "findById i (snd (atender tm t1 t2 r s)) = None"
    by (simp add: sigue_ausente)
  with Cons.IH Cons.prems(2) p show ?case by simp
qed

section \<open>When a write is accepted\<close>

lemma in_barras_ajenas:
  "k \<in> set (barras_ajenas i s) \<longleftrightarrow> (\<exists>d \<in> set s. p_id d \<noteq> i \<and> k \<in> set (claves d))"
  by (auto simp: barras_ajenas_def)

lemma clave_duplicada_None_iff:
  "clave_duplicada i ks s = None \<longleftrightarrow> list_all (\<lambda>k. k \<notin> set (barras_ajenas i s)) ks"
  by (auto simp: clave_duplicada_def find_None_iff list_all_iff in_barras_ajenas)

lemma clave_duplicada_Some:
  "clave_duplicada i ks s = Some k \<Longrightarrow> k \<in> set ks \<and> k \<in> set (barras_ajenas i s)"
  by (auto simp: clave_duplicada_def find_Some_iff in_barras_ajenas)

lemma claves_aplicar_set:
  "claves (aplicar_set (pre_findOneAndUpdate th b) d) =
     (case b_variantes b of None \<Rightarrow> claves d | Some vs \<Rightarrow> barras_de b)"
  by (simp add: claves_def barras_de_def aplicar_set_def pre_findOneAndUpdate_def
      split: option.splits)

lemma barras_de_sin_variantes: "b_variantes b = None \<Longrightarrow> barras_de b = []"
  by (simp add: barras_de_def)

lemma claves_nuevas_insertar:
  "findById i s = None \<Longrightarrow>
   claves (aplicar_set (pre_findOneAndUpdate th b) (por_defecto td i)) = barras_nuevas i b s"
proof -
  have "claves (por_defecto td i) = []" by (simp add: claves_def por_defecto_def)
  then show ?thesis if "findById i s = None"
    using that
    by (simp add: claves_aplicar_set barras_nuevas_def barras_de_sin_variantes
        split: option.splits)
qed

lemma claves_nuevas_actualizar:
  "findById i s = Some old \<Longrightarrow>
   filter (\<lambda>k. k \<notin> set (claves old)) (claves (aplicar_set (pre_findOneAndUpdate th b) old)) =
     barras_nuevas i b s"
  by (simp add: claves_aplicar_set barras_nuevas_def barras_de_sin_variantes
      split: option.splits)

text \<open>
  The outcome of \<open>findOneAndUpdate\<close> from its input: what it stores when the update is
  valid, keeps the id and brings no bar code of another product, and the error otherwise.
\<close>

lemma findOneAndUpdate_aceptado:
  assumes "rv \<longrightarrow> valida_update b" and "\<not> cambia_id i b" and "libre i b s"
  shows "findOneAndUpdate th td i b up rv s =
     (case findById i s of
        None \<Rightarrow>
          if up
          then Inr (Some (aplicar_set (pre_findOneAndUpdate th b) (por_defecto td i)),
                 s @ [aplicar_set (pre_findOneAndUpdate th b) (por_defecto td i)])
          else Inr (None, s)
      | Some old \<Rightarrow>
          Inr (Some (aplicar_set (pre_findOneAndUpdate th b) old),
            reemplazar i (aplicar_set (pre_findOneAndUpdate th b) old) s))"
proof (cases "findById i s")
  case None
  have "clave_duplicada i (barras_nuevas i b s) s = None"
    using assms(3) by (simp add: clave_duplicada_None_iff libre_def)
  with None assms(1,2) show ?thesis
    by (auto simp: findOneAndUpdate_def Let_def claves_nuevas_insertar)
next
  case (Some old)
  have "clave_duplicada i (barras_nuevas i b s) s = None"
    using assms(3) by (simp add: clave_duplicada_None_iff libre_def)
  with Some assms(1,2) show ?thesis
    by (auto simp: findOneAndUpdate_def Let_def claves_nuevas_actualizar)
qed

lemma findOneAndUpdate_choca:
  assumes "rv \<longrightarrow> valida_update b" and "\<not> cambia_id i b" and "\<not> libre i b s"
    and "up \<or> findById i s \<noteq> None"
  shows "\<exists>k. k \<in> set (barras_de b) \<and> k \<in> set (barras_ajenas i s) \<and>
             findOneAndUpdate th td i b up rv s = Inl (duplicate_key ''variantes.codigo_barras'' k)"
proof -
  from assms(3) obtain k where k: "clave_duplicada i (barras_nuevas i b s) s = Some k"
    by (auto simp: clave_duplicada_None_iff [symmetric] libre_def)
  from clave_duplicada_Some [OF k] have "k \<in> set (barras_de b)" "k \<in> set (barras_ajenas i s)"
    by (auto simp: barras_nuevas_def)
  moreover have "findOneAndUpdate th td i b up rv s = Inl (duplicate_key ''variantes.codigo_barras'' k)"
  proof (cases "findById i s")
    case None
    with k assms(1,2,4) show ?thesis
      by (auto simp: findOneAndUpdate_def Let_def claves_nuevas_insertar)
  next
    case (Some old)
    with k assms(1,2) show ?thesis
      by (auto simp: findOneAndUpdate_def Let_def claves_nuevas_actualizar)
  qed
  ultimately show ?thesis by blast
qed

lemma findOneAndUpdate_cambia_id:
  assumes "rv \<longrightarrow> valida_update b" and "cambia_id i b" and "up \<or> findById i s \<noteq> None"
  shows "findOneAndUpdate th td i b up rv s = Inl immutable_field"
  using assms by (auto simp: findOneAndUpdate_def Let_def split: option.splits)

lemma findOneAndUpdate_invalido:
  "\<not> valida_update b \<Longrightarrow> findOneAndUpdate th td i b up True s = Inl validation_error"
  by (simp add: findOneAndUpdate_def)

text \<open>The same for the two handlers.\<close>

lemma put_producto_aceptado:
  assumes "\<not> cambia_id i b" and "libre i b s"
  shows "put_producto th td i b s =
     (case findById i s of
        None \<Rightarrow>
          ((200, Doc (aplicar_set (pre_findOneAndUpdate th b) (por_defecto td i))),
           s @ [aplicar_set (pre_findOneAndUpdate th b) (por_defecto td i)])
      | Some old \<Rightarrow>
          ((200, Doc (aplicar_set (pre_findOneAndUpdate th b) old)),
           reemplazar i (aplicar_set (pre_findOneAndUpdate th b) old) s))"
  using findOneAndUpdate_aceptado [of False b i s th td True] assms
  by (simp add: put_producto_def split: option.splits)

lemma put_producto_choca:
  assumes "\<not> cambia_id i b" and "\<not> libre i b s"
  shows "\<exists>k. k \<in> set (barras_de b) \<and> k \<in> set (barras_ajenas i s) \<and>
     put_producto th td i b s = ((409, Duplicado (Some (''variantes.codigo_barras'', k))), s)"
  using findOneAndUpdate_choca [of False b i s True th td] assms
  by (auto simp: put_producto_def error_handler_def duplicate_key_def)

lemma put_producto_cambia_id:
  "cambia_id i b \<Longrightarrow> put_producto th td i b s = ((500, Detail ''Error interno''), s)"
  using findOneAndUpdate_cambia_id [of False b i True s th td]
  by (simp add: put_producto_def error_handler_def immutable_field_def)

lemma patch_producto_aceptado:
  assumes "valida_update b" and "\<not> cambia_id i b" and "libre i b s" and "findById i s = Some old"
  shows "patch_producto th i b s =
     ((200, Doc (aplicar_set (pre_findOneAndUpdate th b) old)),
      reemplazar i (aplicar_set (pre_findOneAndUpdate th b) old) s)"
  using findOneAndUpdate_aceptado [of True b i s th th False] assms
  by (simp add: patch_producto_def)

lemma patch_producto_choca:
  assumes "valida_update b" and "\<not> cambia_id i b" and "\<not> libre i b s" and "findById i s \<noteq> None"
  shows "\<exists>k. k \<in> set (barras_de b) \<and> k \<in> set (barras_ajenas i s) \<and>
     patch_producto th i b s = ((409, Duplicado (Some (''variantes.codigo_barras'', k))), s)"
  using findOneAndUpdate_choca [of True b i s False th th] assms
  by (auto simp: patch_producto_def error_handler_def duplicate_key_def)

lemma patch_producto_cambia_id:
  assumes "valida_update b" and "cambia_id i b" and "findById i s \<noteq> None"
  shows "patch_producto th i b s = ((500, Detail ''Error interno''), s)"
  using findOneAndUpdate_cambia_id [of True b i False s th th] assms
  by (simp add: patch_producto_def error_handler_def immutable_field_def)

lemma patch_producto_invalido:
  "\<not> valida_update b \<Longrightarrow> patch_producto th i b s = ((500, Detail ''Error interno''), s)"
  by (simp add: patch_producto_def findOneAndUpdate_invalido error_handler_def
      validation_error_def)

text \<open>What the accepted update stores.\<close>

lemma actualizado_set:
  "p_id (aplicar_set (pre_findOneAndUpdate th b) d) = p_id d \<and>
   toma_presentes b (aplicar_set (pre_findOneAndUpdate th b) d) \<and>
   conserva_ausentes b d (aplicar_set (pre_findOneAndUpdate th b) d) \<and>
   actualizado_en (aplicar_set (pre_findOneAndUpdate th b) d) = th"
  by (simp add: aplicar_set_conserva aplicar_set_toma aplicar_set_actualizado)

section \<open>A write that brings a bar code of another product is refused\<close>

lemma ajena_no_libre:
  assumes "bien_formada s" and "k \<in> set (barras_de b)" and "k \<in> set (barras_ajenas i s)"
  shows "\<not> libre i b s"
proof -
  have "k \<notin> set (claves old)" if "findById i s = Some old" for old
  proof -
    from findById_Some_id [OF that] have old: "p_id old = i" "old \<in> set s" by auto
    from assms(3) obtain e where e: "e \<in> set s" "p_id e \<noteq> i" "k \<in> set (claves e)"
      by (auto simp: in_barras_ajenas)
    from assms(1) old e have "set (claves old) \<inter> set (claves e) = {}"
      unfolding bien_formada_def barras_unicas_def by auto
    with e(3) show ?thesis by auto
  qed
  then have "k \<in> set (barras_nuevas i b s)"
    using assms(2) by (auto simp: barras_nuevas_def split: option.splits)
  with assms(3) show ?thesis by (auto simp: libre_def list_all_iff)
qed

lemma post_productos_choca:
  assumes "b_id b = Some i" and "k \<in> set (barras_de b)" and "k \<in> set (barras_ajenas i s)"
  shows "snd (post_productos t1 t2 b s) = s"
    and "fst (fst (post_productos t1 t2 b s)) \<in> {409, 500}"
    and "valida b \<Longrightarrow> fst (fst (post_productos t1 t2 b s)) = 409"
proof -
  have no: "clave_duplicada i (barras_de b) s \<noteq> None"
    using assms(2,3) by (auto simp: clave_duplicada_None_iff list_all_iff)
  show "snd (post_productos t1 t2 b s) = s"
    using assms(1) no
    by (auto simp: post_productos_def create_def Let_def claves_nuevo split: option.splits)
  show "fst (fst (post_productos t1 t2 b s)) \<in> {409, 500}"
    using assms(1) no
    by (auto simp: post_productos_def create_def Let_def claves_nuevo error_handler_def
        validation_error_def duplicate_key_def split: option.splits)
  show "fst (fst (post_productos t1 t2 b s)) = 409" if "valida b"
    using assms(1) no that
    by (auto simp: post_productos_def create_def Let_def claves_nuevo error_handler_def
        duplicate_key_def split: option.splits)
qed

lemma put_producto_ajena:
  assumes "bien_formada s" and "k \<in> set (barras_de b)" and "k \<in> set (barras_ajenas i s)"
  shows "snd (put_producto th td i b s) = s"
    and "fst (fst (put_producto th td i b s)) \<in> {409, 500}"
    and "\<not> cambia_id i b \<Longrightarrow> fst (fst (put_producto th td i b s)) = 409"
proof -
  have nl: "\<not> libre i b s" using assms by (rule ajena_no_libre)
  show "snd (put_producto th td i b s) = s"
    using put_producto_choca [OF _ nl, of th td] put_producto_cambia_id [of i b th td s]
    by (cases "cambia_id i b") auto
  show "fst (fst (put_producto th td i b s)) \<in> {409, 500}"
    using put_producto_choca [OF _ nl, of th td] put_producto_cambia_id [of i b th td s]
    by (cases "cambia_id i b") auto
  show "fst (fst (put_producto th td i b s)) = 409" if "\<not> cambia_id i b"
    using put_producto_choca [OF that nl, of th td] by auto
qed

lemma patch_producto_ajena:
  assumes "bien_formada s" and "k \<in> set (barras_de b)" and "k \<in> set (barras_ajenas i s)"
  shows "snd (patch_producto th i b s) = s"
    and "fst (fst (patch_producto th i b s)) \<in> {404, 409, 500}"
    and "valida_update b \<Longrightarrow> \<not> cambia_id i b \<Longrightarrow> findById i s \<noteq> None \<Longrightarrow>
         fst (fst (patch_producto th i b s)) = 409"
proof -
  have nl: "\<not> libre i b s" using assms by (rule ajena_no_libre)
  consider (inv) "\<not> valida_update b" | (aus) "valida_update b" "findById i s = None"
    | (cam) "valida_update b" "findById i s \<noteq> None" "cambia_id i b"
    | (cho) "valida_update b" "findById i s \<noteq> None" "\<not> cambia_id i b"
    by blast
  then have "snd (patch_producto th i b s) = s \<and>
      fst (fst (patch_producto th i b s)) \<in> {404, 409, 500}"
  proof cases
    case inv
    then show ?thesis by (simp add: patch_producto_invalido)
  next
    case aus
    then show ?thesis by (simp add: patch_producto_ausente)
  next
    case cam
    then show ?thesis by (simp add: patch_producto_cambia_id)
  next
    case cho
    with patch_producto_choca [OF cho(1) cho(3) nl cho(2), of th] show ?thesis by auto
  qed
  then show "snd (patch_producto th i b s) = s"
    and "fst (fst (patch_producto th i b s)) \<in> {404, 409, 500}" by simp_all
  show "fst (fst (patch_producto th i b s)) = 409"
    if "valida_update b" "\<not> cambia_id i b" "findById i s \<noteq> None"
    using patch_producto_choca [OF that(1,2) nl that(3), of th] by auto
qed

lemma atender_ajena:
  assumes "bien_formada s" and "cuerpo_de r = Some b" and "destino r = Some i"
    and "k \<in> set (barras_de b)" and "k \<in> set (barras_ajenas i s)"
  shows "snd (atender tm t1 t2 r s) = s \<and>
         fst (fst (atender tm t1 t2 r s)) \<in> {404, 409, 500} \<and>
         (sin_otra_falta r s \<longrightarrow> fst (fst (atender tm t1 t2 r s)) = 409)"
proof (cases r)
  case (Crear c)
  with assms(2,3) have "c = b" "b_id b = Some i" by simp_all
  with Crear post_productos_choca [OF \<open>b_id b = Some i\<close> assms(4,5), of t1 t2]
  show ?thesis by (auto simp: sin_otra_falta_def)
next
  case (Upsert j c)
  with assms(2,3) have "c = b" "j = i" by simp_all
  with Upsert put_producto_ajena [OF assms(1,4,5), of t1 t2]
  show ?thesis by (auto simp: sin_otra_falta_def)
next
  case (Parcial j c)
  with assms(2,3) have "c = b" "j = i" by simp_all
  with Parcial patch_producto_ajena [OF assms(1,4,5), of t1]
  show ?thesis by (auto simp: sin_otra_falta_def)
qed (use assms(2) in simp_all)

section \<open>Timestamps on a clock\<close>

lemma en_hora_mono: "en_hora t s \<Longrightarrow> t \<le> t' \<Longrightarrow> en_hora t' s"
  by (auto simp: en_hora_def)

lemma en_hora_append: "en_hora t s \<Longrightarrow> creado_en d \<le> actualizado_en d \<Longrightarrow>
    actualizado_en d \<le> t \<Longrightarrow> en_hora t (s @ [d])"
  by (auto simp: en_hora_def)

lemma set_reemplazar_subset: "x \<in> set (reemplazar i d s) \<Longrightarrow> x = d \<or> x \<in> set s"
  by (induction s) (auto split: if_splits)

lemma en_hora_reemplazar: "en_hora t s \<Longrightarrow> creado_en d \<le> actualizado_en d \<Longrightarrow>
    actualizado_en d \<le> t \<Longrightarrow> en_hora t (reemplazar i d s)"
  by (auto simp: en_hora_def dest: set_reemplazar_subset)

lemma en_hora_eliminar: "en_hora t s \<Longrightarrow> en_hora t (eliminar i s)"
  by (auto simp: en_hora_def dest: set_eliminar)

lemma creado_en_aplicar_set:
  "creado_en (aplicar_set u d) = (case b_creado_en u of None \<Rightarrow> creado_en d | Some c \<Rightarrow> c)"
  by (simp add: aplicar_set_def)

lemma findOneAndUpdate_en_hora:
  assumes inv: "en_hora th s" and upd: "findOneAndUpdate th td i b up rv s = Inr (r, s')"
    and adm: "case b_creado_en b of None \<Rightarrow> True | Some c \<Rightarrow> c \<le> th"
    and ins: "up \<and> findById i s = None \<and> b_creado_en b = None \<longrightarrow> td = th"
  shows "en_hora th s'"
proof -
  let ?u = "pre_findOneAndUpdate th b"
  have cu: "b_creado_en ?u = b_creado_en b" by (simp add: pre_findOneAndUpdate_def)
  from findOneAndUpdate_Inr [OF upd]
  consider (none) "s' = s"
    | (ins) d where "up" "findById i s = None" "d = aplicar_set ?u (por_defecto td i)"
        "s' = s @ [d]"
    | (upd) old d where "findById i s = Some old" "d = aplicar_set ?u old" "s' = reemplazar i d s"
    by blast
  then show ?thesis
  proof cases
    case none
    with inv show ?thesis by simp
  next
    case (ins d)
    have "actualizado_en d = th" using ins(3) by (simp add: aplicar_set_actualizado)
    moreover have "creado_en d \<le> th"
    proof (cases "b_creado_en b")
      case None
      with ins(1,2) \<open>up \<and> findById i s = None \<and> b_creado_en b = None \<longrightarrow> td = th\<close>
      have "td = th" by simp
      with None ins(3) show ?thesis by (simp add: creado_en_aplicar_set cu por_defecto_def)
    next
      case (Some c)
      with adm ins(3) show ?thesis by (simp add: creado_en_aplicar_set cu)
    qed
    ultimately show ?thesis using inv ins(4) by (simp add: en_hora_append)
  next
    case (upd old d)
    have "old \<in> set s" using findById_Some_id [OF upd(1)] by simp
    with inv have "creado_en old \<le> th" by (auto simp: en_hora_def)
    then have "creado_en d \<le> th"
      using upd(2) adm by (simp add: creado_en_aplicar_set cu split: option.splits)
    moreover have "actualizado_en d = th" using upd(2) by (simp add: aplicar_set_actualizado)
    ultimately show ?thesis using inv upd(3) by (simp add: en_hora_reemplazar)
  qed
qed

lemma create_en_hora:
  assumes inv: "en_hora th s" and cr: "create td th b s = Inr (d, s')" and "td \<le> th"
    and adm: "case b_creado_en b of None \<Rightarrow> True | Some c \<Rightarrow> c \<le> th"
  shows "en_hora th s'"
proof -
  from create_Inr [OF cr] obtain i where
    i: "d = pre_save th (aplicar_set b (por_defecto td i))" "s' = s @ [d]" by blast
  have "actualizado_en d = th" using i(1) by (simp add: pre_save_def)
  moreover have "creado_en d \<le> th"
    using i(1) adm \<open>td \<le> th\<close>
    by (simp add: pre_save_def creado_en_aplicar_set por_defecto_def split: option.splits)
  ultimately show ?thesis using inv i(2) by (simp add: en_hora_append)
qed

lemma atender_en_hora:
  assumes "en_hora t s" and "admisible t t1 t2 r s"
  shows "en_hora t2 (snd (atender tm t1 t2 r s))"
proof -
  from assms(2) have le: "t \<le> t1" "t1 \<le> t2"
    and cr: "creado_en_admisible (lectura_del_hook t1 t2 r) r"
    and ins: "inserta_con_defecto r s \<longrightarrow> t1 = t2"
    by (simp_all add: admisible_def)
  have inv1: "en_hora t1 s" using assms(1) le(1) by (rule en_hora_mono)
  have inv2: "en_hora t2 s" using inv1 le(2) by (rule en_hora_mono)
  show ?thesis
  proof (cases r)
    case (Crear b)
    then show ?thesis using inv2 cr le(2) create_en_hora [of t2 s t1 b]
      by (auto simp: post_productos_def creado_en_admisible_def split: sum.splits)
  next
    case (Upsert i b)
    have "en_hora t1 s'" if "findOneAndUpdate t1 t2 i b True False s = Inr (x, s')" for x s'
      using findOneAndUpdate_en_hora [OF inv1 that] cr ins Upsert
      by (auto simp: creado_en_admisible_def inserta_con_defecto_def)
    then have "en_hora t2 s'" if "findOneAndUpdate t1 t2 i b True False s = Inr (x, s')" for x s'
      using that le(2) en_hora_mono by blast
    with Upsert inv2 show ?thesis
      by (auto simp: put_producto_def split: sum.splits option.splits)
  next
    case (Parcial i b)
    have "en_hora t1 s'" if "findOneAndUpdate t1 t1 i b False True s = Inr (x, s')" for x s'
      using findOneAndUpdate_en_hora [OF inv1 that] cr Parcial
      by (auto simp: creado_en_admisible_def)
    then have "en_hora t2 s'" if "findOneAndUpdate t1 t1 i b False True s = Inr (x, s')" for x s'
      using that le(2) en_hora_mono by blast
    with Parcial inv2 show ?thesis
      by (auto simp: patch_producto_def split: sum.splits option.splits)
  next
    case (Eliminar i)
    then show ?thesis using inv2
      by (auto simp: delete_producto_def findByIdAndDelete_def en_hora_eliminar
          split: option.splits)
  qed (use inv2 in simp_all)
qed

lemma alcanzable_reloj_en_hora: "alcanzable_reloj t s \<Longrightarrow> en_hora t s"
proof (induction rule: alcanzable_reloj.induct)
  case (reloj_inicio t)
  show ?case by (simp add: en_hora_def)
next
  case (reloj_paso t s t1 t2 r tm)
  then show ?case by (simp add: atender_en_hora)
qed

section \<open>The claims\<close>

subsection \<open>C1: uniqueness of bar codes\<close>

text \<open>
  C1, as stated, fails: the claim asks that no two variants with a non-empty bar code share
  it, also inside one product. \<^verbatim>\<open>POST /productos\<close> with one product whose two variants
  both have the bar code 111 is answered 201, and the state it reaches holds the bar code
  twice: the unique index compares the keys of separate documents only.
\<close>

theorem barras_repetidas_en_un_producto:
  "alcanzable (snd (post_productos 4 5 (cuerpo_producto ''P1'' ''A'' [''111'', ''111'']) [])) \<and>
   fst (fst (post_productos 4 5 (cuerpo_producto ''P1'' ''A'' [''111'', ''111'']) [])) = 201 \<and>
   \<not> distinct (barras_no_vacias
        (snd (post_productos 4 5 (cuerpo_producto ''P1'' ''A'' [''111'', ''111'']) [])))"
proof -
  have "alcanzable
     (snd (atender (\<lambda>t d. True) 4 5 (Crear (cuerpo_producto ''P1'' ''A'' [''111'', ''111''])) []))"
    by (rule paso [OF inicio])
  then show ?thesis
    by (simp add: evaluar barras_no_vacias_def)
qed

text \<open>
  C1, amended: in every reachable state of the catalogue, no two variants that belong to
  different products share a bar code (the empty string included, a value like any other
  for the index), and every write (Create, Replace, PartialUpdate) whose body has a bar
  code that belongs to a product with another id is rejected: the catalogue is left as it
  was and the answer is 404, 409 or 500, and it is 409 when the write has no other fault
  (the body of a Create passes validation; a Replace does not change the id; a
  PartialUpdate passes the update validators, does not change the id and is for an
  existing id).
\<close>

theorem barras_unicas_entre_productos:
  "alcanzable s \<Longrightarrow>
   barras_unicas s \<and>
   (cuerpo_de r = Some b \<and> destino r = Some i \<and>
    k \<in> set (barras_de b) \<and> k \<in> set (barras_ajenas i s) \<longrightarrow>
      snd (atender tm t1 t2 r s) = s \<and>
      fst (fst (atender tm t1 t2 r s)) \<in> {404, 409, 500} \<and>
      (sin_otra_falta r s \<longrightarrow> fst (fst (atender tm t1 t2 r s)) = 409))"
proof -
  assume "alcanzable s"
  then have wf: "bien_formada s" by (rule alcanzable_bien_formada)
  then have "barras_unicas s" by (simp add: bien_formada_def)
  with atender_ajena [OF wf, of r b i k tm t1 t2] show ?thesis by blast
qed

theorem barras_unicas_entre_productos_witness:
  "alcanzable (snd (post_productos 6 7 (cuerpo_producto ''P2'' ''Other'' [''222'']) catalogo_p1)) \<and>
   cuerpo_de (Upsert ''P2'' (sin_campos\<lparr>b_variantes := Some [con_barras ''111'']\<rparr>)) =
     Some (sin_campos\<lparr>b_variantes := Some [con_barras ''111'']\<rparr>) \<and>
   destino (Upsert ''P2'' (sin_campos\<lparr>b_variantes := Some [con_barras ''111'']\<rparr>)) = Some ''P2'' \<and>
   ''111'' \<in> set (barras_de (sin_campos\<lparr>b_variantes := Some [con_barras ''111'']\<rparr>)) \<and>
   ''111'' \<in> set (barras_ajenas ''P2''
      (snd (post_productos 6 7 (cuerpo_producto ''P2'' ''Other'' [''222'']) catalogo_p1))) \<and>
   sin_otra_falta (Upsert ''P2'' (sin_campos\<lparr>b_variantes := Some [con_barras ''111'']\<rparr>))
      (snd (post_productos 6 7 (cuerpo_producto ''P2'' ''Other'' [''222'']) catalogo_p1)) \<and>
   barras_unicas (snd (post_productos 6 7 (cuerpo_producto ''P2'' ''Other'' [''222'']) catalogo_p1)) \<and>
   put_producto 8 9 ''P2'' (sin_campos\<lparr>b_variantes := Some [con_barras ''111'']\<rparr>)
      (snd (post_productos 6 7 (cuerpo_producto ''P2'' ''Other'' [''222'']) catalogo_p1)) =
     ((409, snd (fst (put_producto 8 9 ''P2'' (sin_campos\<lparr>b_variantes := Some [con_barras ''111'']\<rparr>)
         (snd (post_productos 6 7 (cuerpo_producto ''P2'' ''Other'' [''222'']) catalogo_p1))))),
      snd (post_productos 6 7 (cuerpo_producto ''P2'' ''Other'' [''222'']) catalogo_p1)) \<and>
   map claves (snd (post_productos 6 7 (cuerpo_producto ''P2'' ''Other'' [''222'']) catalogo_p1)) =
     [[''111''], [''222'']]"
proof -
  let ?c1 = "(cuerpo_producto ''P1'' ''Paracetamol'' [''111''])\<lparr>b_codigo_atc := Some (Some ''N02'')\<rparr>"
  let ?c2 = "cuerpo_producto ''P2'' ''Other'' [''222'']"
  let ?b = "sin_campos\<lparr>b_variantes := Some [con_barras ''111'']\<rparr>"
  let ?s = "snd (post_productos 6 7 ?c2 catalogo_p1)"
  let ?r = "put_producto 8 9 ''P2'' ?b ?s"
  have "alcanzable (snd (atender (\<lambda>t d. True) 4 5 (Crear ?c1) []))"
    by (rule paso [OF inicio])
  then have "alcanzable catalogo_p1" by (simp add: catalogo_p1_def)
  then have "alcanzable (snd (atender (\<lambda>t d. True) 6 7 (Crear ?c2) catalogo_p1))"
    by (rule paso)
  then have a: "alcanzable ?s" by simp
  have c: "cuerpo_de (Upsert ''P2'' ?b) = Some ?b" and d: "destino (Upsert ''P2'' ?b) = Some ''P2''"
    by simp_all
  have ks: "map claves ?s = [[''111''], [''222'']]"
    by (simp add: catalogo_p1_def evaluar)
  have k1: "''111'' \<in> set (barras_de ?b)"
    by (simp add: barras_de_def sin_campos_def con_barras_def)
  have k2: "''111'' \<in> set (barras_ajenas ''P2'' ?s)"
    by (simp add: barras_ajenas_def catalogo_p1_def evaluar)
  have f: "sin_otra_falta (Upsert ''P2'' ?b) ?s"
    by (simp add: sin_otra_falta_def cambia_id_def sin_campos_def)
  from barras_unicas_entre_productos [OF a, of "Upsert ''P2'' ?b" ?b "''P2''" "''111''"
      "\<lambda>t d. True" 8 9] c d k1 k2 f
  have u: "barras_unicas ?s" and st: "snd ?r = ?s" "fst (fst ?r) = 409"
    by simp_all
  have "?r = ((409, snd (fst ?r)), ?s)"
    using st by (metis prod.collapse)
  with a c d k1 k2 f u ks show ?thesis by blast
qed

subsection \<open>C2: Replace\<close>

text \<open>
  C2, as stated, fails, in four ways. \<^verbatim>\<open>PUT /productos/P1\<close> with the body
  \<^verbatim>\<open>{ nombre: "B" }\<close> on a stored product whose ATC code is N02 is answered 200 and the
  stored ATC code is still N02: the update is a \<^verbatim>\<open>$set\<close> of the body's fields, and a
  field absent from the body keeps its stored value. A body that brings the bar code of
  another product is answered 409, and a body that names another \<^verbatim>\<open>_id\<close> 500, and
  neither overwrites anything. A \<^verbatim>\<open>PUT\<close> of the body \<^verbatim>\<open>{}\<close> for a new id whose hook
  reads the clock at 7 and whose default reads it at 8 stores \<^verbatim>\<open>actualizado_en\<close> = 7 and
  \<^verbatim>\<open>creado_en\<close> = 8.
\<close>

theorem upsert_conserva_campo_ausente:
  "map codigo_atc catalogo_p1 = [Some ''N02''] \<and>
   b_codigo_atc (sin_campos\<lparr>b_nombre := Some ''B''\<rparr>) = None \<and>
   fst (fst (put_producto 7 8 ''P1'' (sin_campos\<lparr>b_nombre := Some ''B''\<rparr>) catalogo_p1)) = 200 \<and>
   map codigo_atc (snd (put_producto 7 8 ''P1'' (sin_campos\<lparr>b_nombre := Some ''B''\<rparr>) catalogo_p1)) =
     [Some ''N02''] \<and>
   put_producto 7 8 ''P2'' (sin_campos\<lparr>b_variantes := Some [con_barras ''111'']\<rparr>) catalogo_p1 =
     ((409, Duplicado (Some (''variantes.codigo_barras'', ''111''))), catalogo_p1) \<and>
   put_producto 7 8 ''P1'' (sin_campos\<lparr>b_id := Some ''P2''\<rparr>) catalogo_p1 =
     ((500, Detail ''Error interno''), catalogo_p1) \<and>
   map creado_en (snd (put_producto 7 8 ''P2'' sin_campos [])) = [8] \<and>
   map actualizado_en (snd (put_producto 7 8 ''P2'' sin_campos [])) = [7]"
  by (simp add: catalogo_p1_def evaluar)

text \<open>
  C2, amended: for every id and every supplied body, Replace is accepted (answered 200)
  exactly when the body names no other \<^verbatim>\<open>_id\<close> (otherwise 500) and none of its bar codes
  that the stored record does not already have belongs to another product (otherwise 409);
  a Replace that is not accepted leaves the catalogue as it was. An accepted Replace returns
  and stores under that id a record in which every field the body supplies has the supplied
  value and \<^verbatim>\<open>updatedAt\<close> is the instant its hook read, whatever the body says. Every
  field the body does not supply keeps its stored value, \<^verbatim>\<open>createdAt\<close> included, when
  the id existed, and has its schema default when it did not: \<^verbatim>\<open>createdAt\<close> is then the
  instant read for the default, a read of the clock of its own.
\<close>

theorem upsert_es_set:
  "(\<not> cambia_id i b \<and> libre i b s \<longrightarrow>
      (\<exists>d. put_producto th td i b s =
             ((200, Doc d), (case findById i s of None \<Rightarrow> s @ [d] | Some old \<Rightarrow> reemplazar i d s)) \<and>
           findById i (snd (put_producto th td i b s)) = Some d \<and> p_id d = i \<and>
           toma_presentes b d \<and> actualizado_en d = th \<and>
           (case findById i s of
              Some old \<Rightarrow> conserva_ausentes b old d
            | None \<Rightarrow> conserva_ausentes b (por_defecto td i) d \<and>
                (b_creado_en b = None \<longrightarrow> creado_en d = td)))) \<and>
   (cambia_id i b \<longrightarrow> put_producto th td i b s = ((500, Detail ''Error interno''), s)) \<and>
   (\<not> cambia_id i b \<and> \<not> libre i b s \<longrightarrow>
      snd (put_producto th td i b s) = s \<and> fst (fst (put_producto th td i b s)) = 409)"
proof -
  let ?u = "pre_findOneAndUpdate th b"
  have acc: "\<exists>d. put_producto th td i b s =
             ((200, Doc d), (case findById i s of None \<Rightarrow> s @ [d] | Some old \<Rightarrow> reemplazar i d s)) \<and>
           findById i (snd (put_producto th td i b s)) = Some d \<and> p_id d = i \<and>
           toma_presentes b d \<and> actualizado_en d = th \<and>
           (case findById i s of
              Some old \<Rightarrow> conserva_ausentes b old d
            | None \<Rightarrow> conserva_ausentes b (por_defecto td i) d \<and>
                (b_creado_en b = None \<longrightarrow> creado_en d = td))"
    if ok: "\<not> cambia_id i b" "libre i b s"
  proof (cases "findById i s")
    case None
    let ?d = "aplicar_set ?u (por_defecto td i)"
    have "put_producto th td i b s = ((200, Doc ?d), s @ [?d])"
      using put_producto_aceptado [OF ok, of th td] None by simp
    moreover have "findById i (s @ [?d]) = Some ?d"
      using None by (simp add: findById_append)
    moreover have "b_creado_en b = None \<longrightarrow> creado_en ?d = td"
      by (simp add: creado_en_aplicar_set pre_findOneAndUpdate_def por_defecto_def)
    ultimately show ?thesis
      using None actualizado_set [of th b "por_defecto td i"] by auto
  next
    case (Some old)
    let ?d = "aplicar_set ?u old"
    have id: "p_id old = i" using findById_Some_id [OF Some] by simp
    have "put_producto th td i b s = ((200, Doc ?d), reemplazar i ?d s)"
      using put_producto_aceptado [OF ok, of th td] Some by simp
    moreover have "findById i (reemplazar i ?d s) = Some ?d"
      using findById_reemplazar_same [OF Some, of ?d] id by simp
    ultimately show ?thesis
      using Some id actualizado_set [of th b old] by auto
  qed
  have rej: "snd (put_producto th td i b s) = s \<and> fst (fst (put_producto th td i b s)) = 409"
    if "\<not> cambia_id i b" "\<not> libre i b s"
    using put_producto_choca [OF that, of th td] by auto
  from acc rej put_producto_cambia_id [of i b th td s] show ?thesis by blast
qed

theorem upsert_es_set_witness:
  "\<not> cambia_id ''P1'' (sin_campos\<lparr>b_nombre := Some ''B''\<rparr>) \<and>
   libre ''P1'' (sin_campos\<lparr>b_nombre := Some ''B''\<rparr>) catalogo_p1 \<and>
   fst (fst (put_producto 7 8 ''P1'' (sin_campos\<lparr>b_nombre := Some ''B''\<rparr>) catalogo_p1)) = 200 \<and>
   (\<exists>d. findById ''P1'' (snd (put_producto 7 8 ''P1'' (sin_campos\<lparr>b_nombre := Some ''B''\<rparr>) catalogo_p1)) = Some d \<and>
        nombre d = Some ''B'' \<and> codigo_atc d = Some ''N02'' \<and> creado_en d = 4 \<and>
        actualizado_en d = 7) \<and>
   \<not> cambia_id ''P2'' (sin_campos\<lparr>b_nombre := Some ''B''\<rparr>) \<and>
   libre ''P2'' (sin_campos\<lparr>b_nombre := Some ''B''\<rparr>) catalogo_p1 \<and>
   fst (fst (put_producto 7 8 ''P2'' (sin_campos\<lparr>b_nombre := Some ''B''\<rparr>) catalogo_p1)) = 200 \<and>
   (\<exists>d. findById ''P2'' (snd (put_producto 7 8 ''P2'' (sin_campos\<lparr>b_nombre := Some ''B''\<rparr>) catalogo_p1)) = Some d \<and>
        nombre d = Some ''B'' \<and> codigo_atc d = None \<and> creado_en d = 8 \<and>
        actualizado_en d = 7) \<and>
   cambia_id ''P1'' (sin_campos\<lparr>b_id := Some ''P2''\<rparr>) \<and>
   put_producto 7 8 ''P1'' (sin_campos\<lparr>b_id := Some ''P2''\<rparr>) catalogo_p1 =
     ((500, Detail ''Error interno''), catalogo_p1) \<and>
   \<not> cambia_id ''P2'' (sin_campos\<lparr>b_variantes := Some [con_barras ''111'']\<rparr>) \<and>
   \<not> libre ''P2'' (sin_campos\<lparr>b_variantes := Some [con_barras ''111'']\<rparr>) catalogo_p1 \<and>
   snd (put_producto 7 8 ''P2'' (sin_campos\<lparr>b_variantes := Some [con_barras ''111'']\<rparr>) catalogo_p1) =
     catalogo_p1 \<and>
   fst (fst (put_producto 7 8 ''P2'' (sin_campos\<lparr>b_variantes := Some [con_barras ''111'']\<rparr>)
     catalogo_p1)) = 409"
proof -
  let ?b = "sin_campos\<lparr>b_nombre := Some ''B''\<rparr>"
  let ?bi = "sin_campos\<lparr>b_id := Some ''P2''\<rparr>"
  let ?bk = "sin_campos\<lparr>b_variantes := Some [con_barras ''111'']\<rparr>"
  have i1: "\<not> cambia_id ''P1'' ?b" and i2: "\<not> cambia_id ''P2'' ?b"
    and i3: "cambia_id ''P1'' ?bi" and i4: "\<not> cambia_id ''P2'' ?bk"
    by (simp_all add: cambia_id_def sin_campos_def)
  have l1: "libre ''P1'' ?b catalogo_p1" and l2: "libre ''P2'' ?b catalogo_p1"
    and l4: "\<not> libre ''P2'' ?bk catalogo_p1"
    by (simp_all add: libre_def barras_nuevas_def barras_ajenas_def barras_de_def
        catalogo_p1_def evaluar)
  have old: "findById ''P1'' catalogo_p1 = Some (hd catalogo_p1)"
    and new: "findById ''P2'' catalogo_p1 = None"
    and atc: "codigo_atc (hd catalogo_p1) = Some ''N02''" and cr: "creado_en (hd catalogo_p1) = 4"
    by (simp_all add: catalogo_p1_def evaluar)
  from upsert_es_set [of "''P1''" ?b catalogo_p1 7 8] i1 l1 old obtain d where
    d: "put_producto 7 8 ''P1'' ?b catalogo_p1 = ((200, Doc d), reemplazar ''P1'' d catalogo_p1)"
    "findById ''P1'' (snd (put_producto 7 8 ''P1'' ?b catalogo_p1)) = Some d"
    "toma_presentes ?b d" "actualizado_en d = 7" "conserva_ausentes ?b (hd catalogo_p1) d"
    by auto
  then have 1: "fst (fst (put_producto 7 8 ''P1'' ?b catalogo_p1)) = 200 \<and>
      (\<exists>d. findById ''P1'' (snd (put_producto 7 8 ''P1'' ?b catalogo_p1)) = Some d \<and>
        nombre d = Some ''B'' \<and> codigo_atc d = Some ''N02'' \<and> creado_en d = 4 \<and>
        actualizado_en d = 7)"
    using atc cr by (auto simp: toma_presentes_def conserva_ausentes_def sin_campos_def)
  from upsert_es_set [of "''P2''" ?b catalogo_p1 7 8] i2 l2 new obtain e where
    e: "put_producto 7 8 ''P2'' ?b catalogo_p1 = ((200, Doc e), catalogo_p1 @ [e])"
    "findById ''P2'' (snd (put_producto 7 8 ''P2'' ?b catalogo_p1)) = Some e"
    "toma_presentes ?b e" "actualizado_en e = 7" "conserva_ausentes ?b (por_defecto 8 ''P2'') e"
    "b_creado_en ?b = None \<longrightarrow> creado_en e = 8"
    by auto
  then have 2: "fst (fst (put_producto 7 8 ''P2'' ?b catalogo_p1)) = 200 \<and>
      (\<exists>d. findById ''P2'' (snd (put_producto 7 8 ''P2'' ?b catalogo_p1)) = Some d \<and>
        nombre d = Some ''B'' \<and> codigo_atc d = None \<and> creado_en d = 8 \<and>
        actualizado_en d = 7)"
    by (auto simp: toma_presentes_def conserva_ausentes_def sin_campos_def por_defecto_def)
  from upsert_es_set [of "''P1''" ?bi catalogo_p1 7 8] i3
  have 3: "put_producto 7 8 ''P1'' ?bi catalogo_p1 = ((500, Detail ''Error interno''), catalogo_p1)"
    by blast
  from upsert_es_set [of "''P2''" ?bk catalogo_p1 7 8] i4 l4
  have 4: "snd (put_producto 7 8 ''P2'' ?bk catalogo_p1) = catalogo_p1 \<and>
      fst (fst (put_producto 7 8 ''P2'' ?bk catalogo_p1)) = 409"
    by blast
  from i1 l1 1 i2 l2 2 i3 3 i4 l4 4 show ?thesis by blast
qed

subsection \<open>C3: a body that fails validation\<close>

text \<open>
  C3, as stated, fails: \<^verbatim>\<open>POST /productos\<close> with a body that has no \<^verbatim>\<open>nombre\<close>
  fails validation and is answered 500, not 400.
\<close>

theorem crear_sin_nombre_responde_500:
  "\<not> valida (sin_campos\<lparr>b_id := Some ''P1''\<rparr>) \<and>
   fst (post_productos 1 2 (sin_campos\<lparr>b_id := Some ''P1''\<rparr>) []) = (500, Detail ''Error interno'')"
  by (simp add: evaluar)

text \<open>
  C3, amended: a Create whose body fails document validation, and a PartialUpdate whose
  fieldset fails the update validators, fail with the validation error, leave the catalogue
  as it was and are answered 500 with the detail "Error interno". The error handler maps
  the duplicate-key error (MongoServerError, code 11000) to 409 and every other error to
  500; no request is answered 400.
\<close>

theorem validacion_responde_500:
  "(\<not> valida b \<longrightarrow> post_productos td th b s = ((500, Detail ''Error interno''), s)) \<and>
   (\<not> valida_update b \<longrightarrow> patch_producto th i b s = ((500, Detail ''Error interno''), s)) \<and>
   fst (error_handler e) =
     (if err_name e = ''MongoServerError'' \<and> err_code e = Some 11000 then 409 else 500) \<and>
   fst (fst (atender tm t1 t2 r s)) \<noteq> 400"
proof -
  have "\<not> valida b \<longrightarrow> post_productos td th b s = ((500, Detail ''Error interno''), s)"
    by (simp add: post_productos_def create_def error_handler_def validation_error_def
        split: option.splits)
  moreover have "\<not> valida_update b \<longrightarrow>
      patch_producto th i b s = ((500, Detail ''Error interno''), s)"
    by (simp add: patch_producto_def findOneAndUpdate_def error_handler_def validation_error_def)
  moreover have "fst (fst (atender tm t1 t2 r s)) \<noteq> 400"
    using estados [of tm t1 t2 r s] by auto
  ultimately show ?thesis by (simp add: error_handler_def)
qed

theorem validacion_responde_500_witness:
  "\<not> valida (sin_campos\<lparr>b_id := Some ''P1''\<rparr>) \<and>
   \<not> valida_update (sin_campos\<lparr>b_nombre := Some ''''\<rparr>) \<and>
   post_productos 1 2 (sin_campos\<lparr>b_id := Some ''P1''\<rparr>) [] = ((500, Detail ''Error interno''), []) \<and>
   patch_producto 1 ''P1'' (sin_campos\<lparr>b_nombre := Some ''''\<rparr>) [] =
     ((500, Detail ''Error interno''), [])"
proof -
  have h1: "\<not> valida (sin_campos\<lparr>b_id := Some ''P1''\<rparr>)"
    by (simp add: valida_def requerido_def sin_campos_def)
  have h2: "\<not> valida_update (sin_campos\<lparr>b_nombre := Some ''''\<rparr>)"
    by (simp add: valida_update_def sin_campos_def)
  from validacion_responde_500 [of "sin_campos\<lparr>b_id := Some ''P1''\<rparr>" 1 2 "[]"] h1
  have "post_productos 1 2 (sin_campos\<lparr>b_id := Some ''P1''\<rparr>) [] =
      ((500, Detail ''Error interno''), [])"
    by blast
  moreover
  from validacion_responde_500 [of "sin_campos\<lparr>b_nombre := Some ''''\<rparr>" _ 1 "[]" "''P1''"] h2
  have "patch_producto 1 ''P1'' (sin_campos\<lparr>b_nombre := Some ''''\<rparr>) [] =
      ((500, Detail ''Error interno''), [])"
    by blast
  ultimately show ?thesis using h1 h2 by simp
qed

subsection \<open>C4: the index is sparse\<close>

text \<open>
  C4, as stated, fails for the empty bar code: \<^verbatim>\<open>PUT /productos/P1\<close> and then
  \<^verbatim>\<open>PUT /productos/P2\<close>, both with one variant whose bar code is the empty string. The
  first is answered 200, the second 409 with the duplicated key: for the index the empty
  string is a value. (Create and PartialUpdate refuse such a variant before the index is
  asked: the required validator fails.)
\<close>

theorem barras_vacias_en_conflicto:
  "fst (fst (put_producto 1 2 ''P1'' (sin_campos\<lparr>b_variantes := Some [con_barras '''']\<rparr>) [])) = 200 \<and>
   fst (put_producto 3 4 ''P2'' (sin_campos\<lparr>b_variantes := Some [con_barras '''']\<rparr>)
         (snd (put_producto 1 2 ''P1'' (sin_campos\<lparr>b_variantes := Some [con_barras '''']\<rparr>) []))) =
     (409, Duplicado (Some (''variantes.codigo_barras'', '''')))"
  by (simp add: evaluar)

text \<open>
  C4, amended: bar-code uniqueness is sparse in that the uniqueness check ignores variants
  whose bar code is absent. A write whose variants all lack a bar code is never answered
  with a bar-code Conflict: a Replace or a PartialUpdate of such a body is never answered
  409, a Create of one never reports a duplicated bar code, and a Replace that does not
  change the id succeeds (200); so of every pair of such Replaces both succeed, and two
  products whose variants have no bar code never cause a Conflict. (The empty string is
  not ignored.)
\<close>

theorem sin_barras_no_hay_conflicto:
  assumes "sin_barras b" and "sin_barras c"
  shows "fst (fst (put_producto th td i b s)) \<noteq> 409 \<and>
         fst (fst (patch_producto th i b s)) \<noteq> 409 \<and>
         snd (fst (post_productos td th b s)) \<noteq> Duplicado (Some (''variantes.codigo_barras'', k)) \<and>
         (\<not> cambia_id i b \<and> \<not> cambia_id j c \<longrightarrow>
            fst (fst (put_producto th td i b s)) = 200 \<and>
            fst (fst (put_producto th' td' j c (snd (put_producto th td i b s)))) = 200)"
  using put_producto_sin_barras [OF assms(1)] put_producto_sin_barras(2) [OF assms(2)]
    patch_producto_sin_barras [OF assms(1)] post_productos_sin_barras [OF assms(1)]
  by blast

theorem sin_barras_no_hay_conflicto_witness:
  "sin_barras (sin_campos\<lparr>b_variantes := Some [sin_codigo]\<rparr>) \<and>
   \<not> cambia_id ''P1'' (sin_campos\<lparr>b_variantes := Some [sin_codigo]\<rparr>) \<and>
   \<not> cambia_id ''P2'' (sin_campos\<lparr>b_variantes := Some [sin_codigo]\<rparr>) \<and>
   fst (fst (put_producto 1 2 ''P1'' (sin_campos\<lparr>b_variantes := Some [sin_codigo]\<rparr>) [])) = 200 \<and>
   fst (fst (put_producto 3 4 ''P2'' (sin_campos\<lparr>b_variantes := Some [sin_codigo]\<rparr>)
     (snd (put_producto 1 2 ''P1'' (sin_campos\<lparr>b_variantes := Some [sin_codigo]\<rparr>) [])))) = 200 \<and>
   map variantes (snd (put_producto 3 4 ''P2'' (sin_campos\<lparr>b_variantes := Some [sin_codigo]\<rparr>)
     (snd (put_producto 1 2 ''P1'' (sin_campos\<lparr>b_variantes := Some [sin_codigo]\<rparr>) [])))) =
     [[sin_codigo], [sin_codigo]]"
proof -
  let ?b = "sin_campos\<lparr>b_variantes := Some [sin_codigo]\<rparr>"
  have h: "sin_barras ?b" and i1: "\<not> cambia_id ''P1'' ?b" and i2: "\<not> cambia_id ''P2'' ?b"
    by (simp_all add: sin_barras_def sin_campos_def sin_codigo_def cambia_id_def)
  have st: "map variantes (snd (put_producto 3 4 ''P2'' ?b (snd (put_producto 1 2 ''P1'' ?b [])))) =
     [[sin_codigo], [sin_codigo]]"
    by (simp add: evaluar sin_codigo_def)
  from sin_barras_no_hay_conflicto [OF h h, of 1 2 "''P1''" "[]" _ "''P2''" 3 4] i1 i2
  have "fst (fst (put_producto 1 2 ''P1'' ?b [])) = 200 \<and>
        fst (fst (put_producto 3 4 ''P2'' ?b (snd (put_producto 1 2 ''P1'' ?b [])))) = 200"
    by blast
  with h i1 i2 st show ?thesis by blast
qed

subsection \<open>C5: Replace, the two timestamps\<close>




subsection \<open>C6: PartialUpdate\<close>

text \<open>
  C6, as stated, fails. On a nonexistent id: \<^verbatim>\<open>PATCH /productos/ghost\<close> with the
  fieldset \<^verbatim>\<open>{ nombre: "" }\<close> on the empty catalogue is answered 500, not 404: the
  update validators (\<^verbatim>\<open>runValidators: true\<close>) run before the store is read. On an
  existing id, a field that is present is not always overwritten: with P1 (bar code 111)
  and P2 (bar code 222) stored, a \<^verbatim>\<open>PATCH\<close> of P2 whose variants bring the bar code 111
  is answered 409, one whose name is empty 500 and one that names another \<^verbatim>\<open>_id\<close> 500,
  and all three leave the catalogue as it was.
\<close>

theorem parcial_ausente_invalido_responde_500:
  "findById ''ghost'' [] = None \<and>
   patch_producto 2 ''ghost'' (sin_campos\<lparr>b_nombre := Some ''''\<rparr>) [] =
     ((500, Detail ''Error interno''), []) \<and>
   map p_id (snd (post_productos 6 7 (cuerpo_producto ''P2'' ''Other'' [''222'']) catalogo_p1)) =
     [''P1'', ''P2''] \<and>
   patch_producto 8 ''P2'' (sin_campos\<lparr>b_variantes := Some [con_barras ''111'']\<rparr>)
     (snd (post_productos 6 7 (cuerpo_producto ''P2'' ''Other'' [''222'']) catalogo_p1)) =
     ((409, Duplicado (Some (''variantes.codigo_barras'', ''111''))),
      snd (post_productos 6 7 (cuerpo_producto ''P2'' ''Other'' [''222'']) catalogo_p1)) \<and>
   patch_producto 8 ''P2'' (sin_campos\<lparr>b_nombre := Some ''''\<rparr>)
     (snd (post_productos 6 7 (cuerpo_producto ''P2'' ''Other'' [''222'']) catalogo_p1)) =
     ((500, Detail ''Error interno''),
      snd (post_productos 6 7 (cuerpo_producto ''P2'' ''Other'' [''222'']) catalogo_p1)) \<and>
   patch_producto 8 ''P2'' (sin_campos\<lparr>b_id := Some ''P3''\<rparr>)
     (snd (post_productos 6 7 (cuerpo_producto ''P2'' ''Other'' [''222'']) catalogo_p1)) =
     ((500, Detail ''Error interno''),
      snd (post_productos 6 7 (cuerpo_producto ''P2'' ''Other'' [''222'']) catalogo_p1))"
  by (simp add: catalogo_p1_def evaluar)

text \<open>
  C6, amended: for every nonexistent id, PartialUpdate leaves the catalogue unchanged, and
  fails with NotFound (404) when the fieldset passes the update validators. For every
  existing id, PartialUpdate is accepted (answered 200) exactly when the fieldset passes
  the update validators, names no other \<^verbatim>\<open>_id\<close> and none of its bar codes that the
  stored record does not already have belongs to another product; otherwise it is answered
  409 or 500 and leaves the catalogue as it was. An accepted PartialUpdate returns and
  stores under that id a record in which every field absent from the fieldset keeps its
  prior stored value, every field present has the value of the fieldset (array-valued
  fields such as keywords and variants replaced whole), and \<^verbatim>\<open>updatedAt\<close> is the
  instant its hook read; the record of every other id is as it was.
\<close>

theorem parcial_es_set:
  "(findById i s = None \<longrightarrow> snd (patch_producto th i b s) = s) \<and>
   (findById i s = None \<and> valida_update b \<longrightarrow>
      patch_producto th i b s = ((404, Detail ''No existe''), s)) \<and>
   (findById i s = Some old \<and> valida_update b \<and> \<not> cambia_id i b \<and> libre i b s \<longrightarrow>
      (\<exists>d. patch_producto th i b s = ((200, Doc d), reemplazar i d s) \<and>
           findById i (reemplazar i d s) = Some d \<and> conserva_ausentes b old d \<and>
           toma_presentes b d \<and> actualizado_en d = th \<and>
           (\<forall>j. j \<noteq> i \<longrightarrow> findById j (reemplazar i d s) = findById j s))) \<and>
   (findById i s = Some old \<and> \<not> (valida_update b \<and> \<not> cambia_id i b \<and> libre i b s) \<longrightarrow>
      snd (patch_producto th i b s) = s \<and> fst (fst (patch_producto th i b s)) \<in> {409, 500})"
proof -
  let ?d = "aplicar_set (pre_findOneAndUpdate th b) old"
  have acc: "\<exists>d. patch_producto th i b s = ((200, Doc d), reemplazar i d s) \<and>
           findById i (reemplazar i d s) = Some d \<and> conserva_ausentes b old d \<and>
           toma_presentes b d \<and> actualizado_en d = th \<and>
           (\<forall>j. j \<noteq> i \<longrightarrow> findById j (reemplazar i d s) = findById j s)"
    if o: "findById i s = Some old" and ok: "valida_update b" "\<not> cambia_id i b" "libre i b s"
  proof -
    have id: "p_id old = i" using findById_Some_id [OF o] by simp
    then have idd: "p_id ?d = i" by simp
    have "patch_producto th i b s = ((200, Doc ?d), reemplazar i ?d s)"
      using patch_producto_aceptado [OF ok o] .
    moreover have "findById i (reemplazar i ?d s) = Some ?d"
      using findById_reemplazar_same [OF o idd] .
    moreover have "\<forall>j. j \<noteq> i \<longrightarrow> findById j (reemplazar i ?d s) = findById j s"
      using idd by (simp add: findById_reemplazar_other)
    ultimately show ?thesis using actualizado_set [of th b old] by blast
  qed
  have rej: "snd (patch_producto th i b s) = s \<and> fst (fst (patch_producto th i b s)) \<in> {409, 500}"
    if o: "findById i s = Some old" and no: "\<not> (valida_update b \<and> \<not> cambia_id i b \<and> libre i b s)"
  proof -
    from o have ex: "findById i s \<noteq> None" by simp
    consider (inv) "\<not> valida_update b" | (cam) "valida_update b" "cambia_id i b"
      | (cho) "valida_update b" "\<not> cambia_id i b" "\<not> libre i b s"
      using no by blast
    then show ?thesis
    proof cases
      case inv
      then show ?thesis by (simp add: patch_producto_invalido)
    next
      case cam
      then show ?thesis using ex by (simp add: patch_producto_cambia_id)
    next
      case cho
      with patch_producto_choca [OF cho ex, of th] show ?thesis by auto
    qed
  qed
  from acc rej patch_producto_ausente show ?thesis by blast
qed

theorem parcial_es_set_witness:
  "findById ''ghost'' catalogo_p1 = None \<and>
   valida_update (sin_campos\<lparr>b_habilitado := Some False\<rparr>) \<and>
   patch_producto 8 ''ghost'' (sin_campos\<lparr>b_habilitado := Some False\<rparr>) catalogo_p1 =
     ((404, Detail ''No existe''), catalogo_p1) \<and>
   findById ''P1'' catalogo_p1 = Some (hd catalogo_p1) \<and>
   \<not> cambia_id ''P1'' (sin_campos\<lparr>b_habilitado := Some False\<rparr>) \<and>
   libre ''P1'' (sin_campos\<lparr>b_habilitado := Some False\<rparr>) catalogo_p1 \<and>
   fst (fst (patch_producto 8 ''P1'' (sin_campos\<lparr>b_habilitado := Some False\<rparr>) catalogo_p1)) = 200 \<and>
   (\<exists>d. findById ''P1''
          (snd (patch_producto 8 ''P1'' (sin_campos\<lparr>b_habilitado := Some False\<rparr>) catalogo_p1)) =
          Some d \<and>
        habilitado d = False \<and> nombre d = Some ''Paracetamol'' \<and> actualizado_en d = 8) \<and>
   \<not> valida_update (sin_campos\<lparr>b_nombre := Some ''''\<rparr>) \<and>
   patch_producto 8 ''P1'' (sin_campos\<lparr>b_nombre := Some ''''\<rparr>) catalogo_p1 =
     ((fst (fst (patch_producto 8 ''P1'' (sin_campos\<lparr>b_nombre := Some ''''\<rparr>) catalogo_p1)),
       snd (fst (patch_producto 8 ''P1'' (sin_campos\<lparr>b_nombre := Some ''''\<rparr>) catalogo_p1))),
      catalogo_p1) \<and>
   fst (fst (patch_producto 8 ''P1'' (sin_campos\<lparr>b_nombre := Some ''''\<rparr>) catalogo_p1)) \<noteq> 200"
proof -
  let ?b = "sin_campos\<lparr>b_habilitado := Some False\<rparr>"
  let ?bn = "sin_campos\<lparr>b_nombre := Some ''''\<rparr>"
  let ?r = "patch_producto 8 ''P1'' ?b catalogo_p1"
  let ?rn = "patch_producto 8 ''P1'' ?bn catalogo_p1"
  have n: "findById ''ghost'' catalogo_p1 = None"
    and v: "valida_update ?b"
    and old: "findById ''P1'' catalogo_p1 = Some (hd catalogo_p1)"
    and nm: "nombre (hd catalogo_p1) = Some ''Paracetamol''"
    and nv: "\<not> valida_update ?bn"
    by (simp_all add: catalogo_p1_def evaluar)
  have i1: "\<not> cambia_id ''P1'' ?b" by (simp add: cambia_id_def sin_campos_def)
  have l1: "libre ''P1'' ?b catalogo_p1"
    by (simp add: libre_def barras_nuevas_def barras_ajenas_def barras_de_def
        catalogo_p1_def evaluar)
  from parcial_es_set [of "''ghost''" catalogo_p1 8 ?b] n v
  have 1: "patch_producto 8 ''ghost'' ?b catalogo_p1 = ((404, Detail ''No existe''), catalogo_p1)"
    by blast
  from parcial_es_set [of "''P1''" catalogo_p1 8 ?b "hd catalogo_p1"] old v i1 l1
  obtain d where d: "?r = ((200, Doc d), reemplazar ''P1'' d catalogo_p1)"
    "findById ''P1'' (reemplazar ''P1'' d catalogo_p1) = Some d"
    "conserva_ausentes ?b (hd catalogo_p1) d" "toma_presentes ?b d" "actualizado_en d = 8"
    by blast
  then have 2: "fst (fst ?r) = 200 \<and> (\<exists>d. findById ''P1'' (snd ?r) = Some d \<and>
        habilitado d = False \<and> nombre d = Some ''Paracetamol'' \<and> actualizado_en d = 8)"
    using nm by (auto simp: conserva_ausentes_def toma_presentes_def sin_campos_def)
  from parcial_es_set [of "''P1''" catalogo_p1 8 ?bn "hd catalogo_p1"] old nv
  have 3: "snd ?rn = catalogo_p1" "fst (fst ?rn) \<in> {409, 500}"
    by blast+
  then have 4: "?rn = ((fst (fst ?rn), snd (fst ?rn)), catalogo_p1)" "fst (fst ?rn) \<noteq> 200"
    by (metis prod.collapse, auto)
  from n v 1 old i1 l1 2 nv 4 show ?thesis by blast
qed

subsection \<open>C7: Create, then GetByID\<close>

text \<open>
  C7, as stated, fails: a product with a fresh id whose only variant has the empty bar code
  collides with no existing non-empty bar code, yet \<^verbatim>\<open>POST /productos\<close> is answered 500
  (the required validator refuses the empty string) and GetByID of the id is answered 404.
\<close>

theorem crear_con_barras_vacias_falla:
  "findById ''P1'' [] = None \<and>
   set (barras_de (cuerpo_producto ''P1'' ''A'' [''''])) \<inter> set (barras_no_vacias []) = {} \<and>
   fst (post_productos 4 5 (cuerpo_producto ''P1'' ''A'' ['''']) []) = (500, Detail ''Error interno'') \<and>
   get_producto ''P1'' (snd (post_productos 4 5 (cuerpo_producto ''P1'' ''A'' ['''']) [])) =
     (404, Detail ''No existe'')"
  by (simp add: evaluar barras_de_def barras_no_vacias_def)

text \<open>
  C7, amended: for every product that passes validation (\<^verbatim>\<open>_id\<close>, name and the bar code
  of every variant present and not empty), whose id is not yet in the catalogue and none of
  whose variant bar codes collides with an existing non-empty bar code, Create succeeds
  (201), and an immediately following GetByID with the same id returns the stored product,
  which has the fields of the body and \<^verbatim>\<open>updatedAt\<close> = the instant its save hook read.
\<close>

theorem crear_y_obtener:
  assumes "valida b" and "b_id b = Some i" and "findById i s = None"
    and "set (barras_de b) \<inter> set (barras_no_vacias s) = {}"
  shows "\<exists>d. post_productos td th b s = ((201, Doc d), s @ [d]) \<and>
             get_producto i (s @ [d]) = (200, Doc d) \<and>
             p_id d = i \<and> toma_presentes b d \<and> actualizado_en d = th"
proof -
  let ?d = "pre_save th (aplicar_set b (por_defecto td i))"
  have "\<forall>k \<in> set (barras_de b). k \<noteq> []"
    using valida_barras_no_vacias [OF assms(1)] by blast
  then have "clave_duplicada i (claves ?d) s = None"
    using assms(4) by (simp add: claves_nuevo clave_duplicada_libre)
  then have "post_productos td th b s = ((201, Doc ?d), s @ [?d])"
    using assms(1-3) by (simp add: post_productos_def create_def Let_def)
  moreover have "p_id ?d = i" by (simp add: pre_save_def)
  moreover have "get_producto i (s @ [?d]) = (200, Doc ?d)"
    using assms(3) \<open>p_id ?d = i\<close> by (simp add: get_producto_def findById_append)
  moreover have "toma_presentes b ?d"
    by (simp add: toma_presentes_def pre_save_def aplicar_set_def split: option.splits)
  moreover have "actualizado_en ?d = th" by (simp add: pre_save_def)
  ultimately show ?thesis by blast
qed

theorem crear_y_obtener_witness:
  "valida (cuerpo_producto ''P2'' ''Other'' [''222'']) \<and>
   b_id (cuerpo_producto ''P2'' ''Other'' [''222'']) = Some ''P2'' \<and>
   findById ''P2'' catalogo_p1 = None \<and>
   set (barras_de (cuerpo_producto ''P2'' ''Other'' [''222''])) \<inter> set (barras_no_vacias catalogo_p1) = {} \<and>
   (\<exists>d. post_productos 6 7 (cuerpo_producto ''P2'' ''Other'' [''222'']) catalogo_p1 =
          ((201, Doc d), catalogo_p1 @ [d]) \<and>
        get_producto ''P2'' (catalogo_p1 @ [d]) = (200, Doc d) \<and>
        nombre d = Some ''Other'')"
proof -
  let ?b = "cuerpo_producto ''P2'' ''Other'' [''222'']"
  have v: "valida ?b" and i: "b_id ?b = Some ''P2''" and n: "findById ''P2'' catalogo_p1 = None"
    and k: "set (barras_de ?b) \<inter> set (barras_no_vacias catalogo_p1) = {}"
    by (simp_all add: catalogo_p1_def evaluar barras_de_def barras_no_vacias_def)
  from crear_y_obtener [OF v i n k, of 6 7] obtain d where
    "post_productos 6 7 ?b catalogo_p1 = ((201, Doc d), catalogo_p1 @ [d])"
    "get_producto ''P2'' (catalogo_p1 @ [d]) = (200, Doc d)" "toma_presentes ?b d"
    by blast
  then have "\<exists>d. post_productos 6 7 ?b catalogo_p1 = ((201, Doc d), catalogo_p1 @ [d]) \<and>
        get_producto ''P2'' (catalogo_p1 @ [d]) = (200, Doc d) \<and> nombre d = Some ''Other''"
    by (auto simp: toma_presentes_def cuerpo_producto_def sin_campos_def)
  with v i n k show ?thesis by blast
qed

subsection \<open>C8: Delete\<close>

text \<open>
  C8: in every reachable state, after a Delete of \<open>i\<close> that succeeds, which is answered
  204 with no payload, GetByID of \<open>i\<close> is answered 404 (NotFound), and so it is after any
  further requests that are not writes for \<open>i\<close>; a second Delete of \<open>i\<close> then is
  answered 404 and changes nothing.
\<close>

theorem eliminar_dos_veces:
  assumes "alcanzable s" and "fst (fst (delete_producto i s)) = 204"
    and "list_all (\<lambda>p. \<not> escribe i (snd (snd p))) rs"
  shows "fst (delete_producto i s) = (204, Sin_contenido) \<and>
         get_producto i (snd (delete_producto i s)) = (404, Detail ''No existe'') \<and>
         get_producto i (atender_todas tm rs (snd (delete_producto i s))) = (404, Detail ''No existe'') \<and>
         delete_producto i (atender_todas tm rs (snd (delete_producto i s))) =
           ((404, Detail ''No existe''), atender_todas tm rs (snd (delete_producto i s)))"
proof -
  have dist: "distinct (map p_id s)"
    using alcanzable_bien_formada [OF assms(1)] by (simp add: bien_formada_def)
  from assms(2) obtain d where d: "findById i s = Some d"
    by (auto simp: delete_producto_def findByIdAndDelete_def split: option.splits)
  then have del: "delete_producto i s = ((204, Sin_contenido), eliminar i s)"
    by (simp add: delete_producto_def findByIdAndDelete_def)
  have gone: "findById i (eliminar i s) = None" using dist by (rule findById_eliminar)
  from siguen_ausentes [OF gone assms(3)]
  have later: "findById i (atender_todas tm rs (eliminar i s)) = None" .
  show ?thesis using del gone later
    by (simp add: get_producto_def delete_producto_def findByIdAndDelete_def)
qed

theorem eliminar_dos_veces_witness:
  "alcanzable (snd (post_productos 4 5 (cuerpo_producto ''P1'' ''A'' [''111'']) [])) \<and>
   fst (fst (delete_producto ''P1'' (snd (post_productos 4 5 (cuerpo_producto ''P1'' ''A'' [''111'']) [])))) = 204 \<and>
   list_all (\<lambda>p. \<not> escribe ''P1'' (snd (snd p))) [(6, 7, Crear (cuerpo_producto ''P2'' ''B'' [''222'']))] \<and>
   fst (delete_producto ''P1'' (snd (post_productos 4 5 (cuerpo_producto ''P1'' ''A'' [''111'']) []))) = (204, Sin_contenido) \<and>
   get_producto ''P1'' (snd (delete_producto ''P1'' (snd (post_productos 4 5 (cuerpo_producto ''P1'' ''A'' [''111'']) [])))) = (404, Detail ''No existe'') \<and>
   fst (delete_producto ''P1''
     (atender_todas (\<lambda>t d. True) [(6, 7, Crear (cuerpo_producto ''P2'' ''B'' [''222'']))]
        (snd (delete_producto ''P1'' (snd (post_productos 4 5 (cuerpo_producto ''P1'' ''A'' [''111'']) [])))))) =
     (404, Detail ''No existe'')"
proof -
  let ?s = "snd (post_productos 4 5 (cuerpo_producto ''P1'' ''A'' [''111'']) [])"
  let ?rs = "[(6::nat, 7::nat, Crear (cuerpo_producto ''P2'' ''B'' [''222'']))]"
  have "alcanzable (snd (atender (\<lambda>t d. True) 4 5 (Crear (cuerpo_producto ''P1'' ''A'' [''111''])) []))"
    by (rule paso [OF inicio])
  then have r: "alcanzable ?s" by simp
  have ok: "fst (fst (delete_producto ''P1'' ?s)) = 204"
    by (simp add: evaluar)
  have rs: "list_all (\<lambda>p. \<not> escribe ''P1'' (snd (snd p))) ?rs"
    by (simp add: cuerpo_producto_def sin_campos_def)
  from eliminar_dos_veces [OF r ok rs, of "\<lambda>t d. True"] r ok rs show ?thesis by simp
qed

subsection \<open>C9: the order of the two timestamps\<close>

text \<open>
  C9, as stated, fails: the claim covers writes whose body supplies \<^verbatim>\<open>createdAt\<close>.
  \<^verbatim>\<open>POST /productos\<close> whose reads of the clock are 4 and 5, with a body whose
  \<^verbatim>\<open>creado_en\<close> is 100, is answered 201 and stores \<^verbatim>\<open>creado_en\<close> = 100 with
  \<^verbatim>\<open>actualizado_en\<close> = 5: the hooks set \<^verbatim>\<open>actualizado_en\<close> only. A body that supplies
  no date at all can break the order too: \<^verbatim>\<open>PUT /productos/P2\<close> that inserts the record
  reads the clock for \<^verbatim>\<open>actualizado_en\<close> in its hook, and for the default of
  \<^verbatim>\<open>creado_en\<close> afterwards; with the reads 7 and 8 it is answered 200 and stores
  \<^verbatim>\<open>creado_en\<close> = 8 with \<^verbatim>\<open>actualizado_en\<close> = 7.
\<close>

theorem creado_en_del_cuerpo_rompe_el_orden:
  "alcanzable (snd (post_productos 4 5
      ((cuerpo_producto ''P1'' ''A'' [''111''])\<lparr>b_creado_en := Some 100\<rparr>) [])) \<and>
   fst (fst (post_productos 4 5
      ((cuerpo_producto ''P1'' ''A'' [''111''])\<lparr>b_creado_en := Some 100\<rparr>) [])) = 201 \<and>
   map (\<lambda>d. (creado_en d, actualizado_en d)) (snd (post_productos 4 5
      ((cuerpo_producto ''P1'' ''A'' [''111''])\<lparr>b_creado_en := Some 100\<rparr>) [])) = [(100, 5)] \<and>
   \<not> fechas_en_orden (snd (post_productos 4 5
      ((cuerpo_producto ''P1'' ''A'' [''111''])\<lparr>b_creado_en := Some 100\<rparr>) [])) \<and>
   alcanzable (snd (put_producto 7 8 ''P2'' sin_campos [])) \<and>
   fst (fst (put_producto 7 8 ''P2'' sin_campos [])) = 200 \<and>
   map (\<lambda>d. (creado_en d, actualizado_en d)) (snd (put_producto 7 8 ''P2'' sin_campos [])) =
     [(8, 7)] \<and>
   \<not> fechas_en_orden (snd (put_producto 7 8 ''P2'' sin_campos []))"
proof -
  have "alcanzable (snd (atender (\<lambda>t d. True) 4 5
      (Crear ((cuerpo_producto ''P1'' ''A'' [''111''])\<lparr>b_creado_en := Some 100\<rparr>)) []))"
    by (rule paso [OF inicio])
  moreover have "alcanzable (snd (atender (\<lambda>t d. True) 7 8 (Upsert ''P2'' sin_campos) []))"
    by (rule paso [OF inicio])
  ultimately show ?thesis
    by (simp add: evaluar fechas_en_orden_def)
qed

text \<open>
  C9, amended: for every product stored in a state reached by requests whose reads of the
  clock never go back, none of whose bodies supplied a \<^verbatim>\<open>createdAt\<close> later than the
  instant its request wrote into \<^verbatim>\<open>updatedAt\<close>, and where every Replace that inserted a
  record with the default \<^verbatim>\<open>createdAt\<close> read for that default the instant its hook had
  read, \<^verbatim>\<open>updatedAt\<close> is greater than or equal to \<^verbatim>\<open>createdAt\<close> (and not later than
  the clock). The invariant is preserved by every operation (Create, Replace,
  PartialUpdate), including writes whose body supplies \<^verbatim>\<open>updatedAt\<close>, which the hooks
  replace by the instant they read, or such a \<^verbatim>\<open>createdAt\<close>.
\<close>

theorem fechas_en_orden_con_reloj:
  "alcanzable_reloj t s \<Longrightarrow> fechas_en_orden s \<and> list_all (\<lambda>d. actualizado_en d \<le> t) s"
  using alcanzable_reloj_en_hora [of t s]
  by (auto simp: en_hora_def fechas_en_orden_def list_all_iff)

theorem fechas_en_orden_con_reloj_witness:
  "alcanzable_reloj 10
     (snd (put_producto 10 10 ''P2'' sin_campos
        (snd (put_producto 7 8 ''P1''
           (sin_campos\<lparr>b_creado_en := Some 3, b_actualizado_en := Some 1000\<rparr>) catalogo_p1)))) \<and>
   fechas_en_orden
     (snd (put_producto 10 10 ''P2'' sin_campos
        (snd (put_producto 7 8 ''P1''
           (sin_campos\<lparr>b_creado_en := Some 3, b_actualizado_en := Some 1000\<rparr>) catalogo_p1)))) \<and>
   map (\<lambda>d. (p_id d, creado_en d, actualizado_en d))
     (snd (put_producto 10 10 ''P2'' sin_campos
        (snd (put_producto 7 8 ''P1''
           (sin_campos\<lparr>b_creado_en := Some 3, b_actualizado_en := Some 1000\<rparr>) catalogo_p1)))) =
     [(''P1'', 3, 7), (''P2'', 10, 10)]"
proof -
  let ?c = "(cuerpo_producto ''P1'' ''Paracetamol'' [''111''])\<lparr>b_codigo_atc := Some (Some ''N02'')\<rparr>"
  let ?b = "sin_campos\<lparr>b_creado_en := Some 3, b_actualizado_en := Some 1000\<rparr>"
  let ?s1 = "snd (put_producto 7 8 ''P1'' ?b catalogo_p1)"
  let ?s2 = "snd (put_producto 10 10 ''P2'' sin_campos ?s1)"
  have a1: "admisible 0 4 5 (Crear ?c) []"
    by (simp add: admisible_def creado_en_admisible_def inserta_con_defecto_def
        cuerpo_producto_def sin_campos_def)
  have a2: "admisible 5 7 8 (Upsert ''P1'' ?b) catalogo_p1"
    by (simp add: admisible_def creado_en_admisible_def inserta_con_defecto_def sin_campos_def)
  have a3: "admisible 8 10 10 (Upsert ''P2'' sin_campos) ?s1"
    by (simp add: admisible_def creado_en_admisible_def inserta_con_defecto_def sin_campos_def)
  have "alcanzable_reloj 5 (snd (atender (\<lambda>t d. True) 4 5 (Crear ?c) []))"
    by (rule reloj_paso [OF reloj_inicio a1])
  then have "alcanzable_reloj 5 catalogo_p1" by (simp add: catalogo_p1_def)
  then have "alcanzable_reloj 8 (snd (atender (\<lambda>t d. True) 7 8 (Upsert ''P1'' ?b) catalogo_p1))"
    using a2 by (rule reloj_paso)
  then have "alcanzable_reloj 8 ?s1" by simp
  then have "alcanzable_reloj 10 (snd (atender (\<lambda>t d. True) 10 10 (Upsert ''P2'' sin_campos) ?s1))"
    using a3 by (rule reloj_paso)
  then have r: "alcanzable_reloj 10 ?s2" by simp
  have u: "map (\<lambda>d. (p_id d, creado_en d, actualizado_en d)) ?s2 =
      [(''P1'', 3, 7), (''P2'', 10, 10)]"
    by (simp add: catalogo_p1_def evaluar)
  from fechas_en_orden_con_reloj [OF r] r u show ?thesis by simp
qed

subsection \<open>C10: a search without limit\<close>

text \<open>
  C10: a search whose \<^verbatim>\<open>limit\<close> parameter is absent returns at most 50 products, however
  many match; when \<^verbatim>\<open>skip\<close> is absent too, they are the first 50 matches in storage
  order, none skipped.
\<close>

theorem busqueda_sin_limit_hasta_50:
  "q_limit c = None \<Longrightarrow>
   \<exists>r. get_productos tm c s = (200, Docs r) \<and> length r \<le> 50 \<and>
       (q_skip c = None \<longrightarrow> r = take 50 (filter (coincide tm (construir_q c)) s))"
  by (simp add: get_productos_def find_limit_skip_def)

theorem busqueda_sin_limit_hasta_50_witness:
  "q_limit sin_parametros = None \<and> q_skip sin_parametros = None \<and>
   length (filter (coincide (\<lambda>t d. True) (construir_q sin_parametros)) (muchos 51)) = 51 \<and>
   (\<exists>r. get_productos (\<lambda>t d. True) sin_parametros (muchos 51) = (200, Docs r) \<and> length r = 50)"
proof -
  have h1: "q_limit sin_parametros = None" and h2: "q_skip sin_parametros = None"
    by (simp_all add: sin_parametros_def)
  have all: "filter (coincide (\<lambda>t d. True) (construir_q sin_parametros)) (muchos 51) = muchos 51"
    by (simp add: coincide_def construir_q_def sin_parametros_def)
  from busqueda_sin_limit_hasta_50 [OF h1, of "\<lambda>t d. True" "muchos 51"] h2 all
  obtain r where "get_productos (\<lambda>t d. True) sin_parametros (muchos 51) = (200, Docs r)"
    and "r = take 50 (muchos 51)" by auto
  then show ?thesis using h1 h2 all by (simp add: length_muchos)
qed

end
